theory Spec2Isabelle
  imports Complex_Main
begin

text \<open>
  A shallow embedding of the proxy checker of \<open>proxy_checker.py\<close>: the endpoint parser and
  validator, the socket prober, the client of the external validation service, the
  per-candidate probe, the protocol fallback tester, the check of one endpoint and the
  batch orchestrator, together with the creation of the connector and of the client
  session on which every HTTP request of the checker depends. What the network does to a
  request that is sent is an input of each function; awaiting a group of coroutines is
  modelled by the completion instants of its members; the effects of a check (units of the
  semaphore, network operations started) are returned as a list.
\<close>

section \<open>Python text primitives used by the checker\<close>

text \<open>
  Python \<open>str\<close> values are modelled as \<^typ>\<open>string\<close>: ASCII text character by
  character, any other symbol as its UTF-8 bytes. What \<open>int\<close> and \<open>str.strip\<close> do with
  text that holds a symbol outside ASCII depends on the Unicode tables of the interpreter;
  it is left unspecified here, not decided.
\<close>

definition is_ascii :: "string \<Rightarrow> bool" where
  "is_ascii s = list_all (\<lambda>c. of_char c < (128::nat)) s"

text \<open>\<open>s.split(c)\<close>: one field more than there are separators, never an empty list.\<close>

fun split :: "char \<Rightarrow> string \<Rightarrow> string list" where
  "split c [] = [[]]"
| "split c (x # xs) =
     (if x = c then [] # split c xs
      else (case split c xs of
              [] \<Rightarrow> [[x]]
            | w # ws \<Rightarrow> (x # w) # ws))"

text \<open>\<open>ord(c)\<close>.\<close>

definition ord :: "char \<Rightarrow> nat" where
  "ord c = of_char c"

text \<open>White space skipped by \<open>int\<close> on ASCII text: space, tab, LF, VT, FF, CR.\<close>

definition is_int_space :: "char \<Rightarrow> bool" where
  "is_int_space c \<longleftrightarrow> c = CHR '' '' \<or> (9 \<le> ord c \<and> ord c \<le> 13)"

text \<open>White space removed by \<open>str.strip()\<close>: the above and the separators 0x1C..0x1F.\<close>

definition is_str_space :: "char \<Rightarrow> bool" where
  "is_str_space c \<longleftrightarrow> is_int_space c \<or> (28 \<le> ord c \<and> ord c \<le> 31)"

definition strip_with :: "(char \<Rightarrow> bool) \<Rightarrow> string \<Rightarrow> string" where
  "strip_with sp s = rev (dropWhile sp (rev (dropWhile sp s)))"

text \<open>\<open>s.strip()\<close>; on text outside ASCII an unspecified string.\<close>

definition strip_beyond_ascii :: "string \<Rightarrow> string" where
  "strip_beyond_ascii = undefined"

definition strip :: "string \<Rightarrow> string" where
  "strip s = (if is_ascii s then strip_with is_str_space s else strip_beyond_ascii s)"

definition is_digit :: "char \<Rightarrow> bool" where
  "is_digit c \<longleftrightarrow> 48 \<le> ord c \<and> ord c \<le> 57"

definition digit_val :: "char \<Rightarrow> nat" where
  "digit_val c = ord c - 48"

text \<open>
  The digits of a base-10 literal after its first digit: a single underscore may stand
  between two digits, nowhere else.
\<close>

fun more_digits :: "nat \<Rightarrow> string \<Rightarrow> nat option" where
  "more_digits acc [] = Some acc"
| "more_digits acc [c] = (if is_digit c then Some (acc * 10 + digit_val c) else None)"
| "more_digits acc (c # d # cs) =
     (if c = CHR ''_'' then
        (if is_digit d then more_digits (acc * 10 + digit_val d) cs else None)
      else if is_digit c then more_digits (acc * 10 + digit_val c) (d # cs)
      else None)"

definition digits :: "string \<Rightarrow> nat option" where
  "digits s = (case s of
                 [] \<Rightarrow> None
               | c # cs \<Rightarrow> if is_digit c then more_digits (digit_val c) cs else None)"

text \<open>
  \<open>int(s)\<close> in base 10 on ASCII text; \<open>None\<close> stands for \<open>ValueError\<close>. White space
  around the literal is skipped, one sign may stand before the digits, and a literal with
  more than 4300 digits (the interpreter's default limit, counted without underscores)
  is refused.
\<close>

definition max_str_digits :: nat where
  "max_str_digits = 4300"

definition ascii_int :: "string \<Rightarrow> int option" where
  "ascii_int s =
     (if max_str_digits < length (filter is_digit s) then None
      else (case strip_with is_int_space s of
              [] \<Rightarrow> None
            | c # cs \<Rightarrow>
                if c = CHR ''+'' then map_option int (digits cs)
                else if c = CHR ''-'' then map_option (\<lambda>n. - int n) (digits cs)
                else map_option int (digits (c # cs))))"

text \<open>\<open>int(s)\<close> on text with a symbol outside ASCII: an unspecified outcome.\<close>

definition int_beyond_ascii :: "string \<Rightarrow> int option" where
  "int_beyond_ascii = undefined"

text \<open>\<open>int(s)\<close>.\<close>

definition py_int :: "string \<Rightarrow> int option" where
  "py_int s = (if is_ascii s then ascii_int s else int_beyond_ascii s)"

text \<open>\<open>sub in s\<close> on two strings.\<close>

fun starts_with :: "string \<Rightarrow> string \<Rightarrow> bool" where
  "starts_with [] s = True"
| "starts_with (p # ps) [] = False"
| "starts_with (p # ps) (c # cs) = (p = c \<and> starts_with ps cs)"

fun contains :: "string \<Rightarrow> string \<Rightarrow> bool" where
  "contains sub [] = (sub = [])"
| "contains sub (c # cs) = (starts_with sub (c # cs) \<or> contains sub cs)"

text \<open>\<open>str(n)\<close> for an integer.\<close>

definition digit_char :: "nat \<Rightarrow> char" where
  "digit_char d = ''0123456789'' ! d"

function show_nat :: "nat \<Rightarrow> string" where
  "show_nat n = (if n < 10 then [digit_char n] else show_nat (n div 10) @ [digit_char (n mod 10)])"
  by pat_completeness auto
termination
  by (relation "measure id") auto

definition show_int :: "int \<Rightarrow> string" where
  "show_int i = (if i < 0 then CHR ''-'' # show_nat (nat (- i)) else show_nat (nat i))"

definition cross_mark :: string where
  "cross_mark = [CHR 0xE2, CHR 0x9D, CHR 0x8C]"

definition check_mark :: string where
  "check_mark = [CHR 0xE2, CHR 0x9C, CHR 0x85]"

section \<open>Endpoint parser and validator\<close>

text \<open>
  \<open>aiohttp.BasicAuth(login, password)\<close> is a pair; its constructor raises \<open>ValueError\<close>
  for a login that contains a colon.
\<close>

type_synonym basic_auth = "string \<times> string"

definition BasicAuth :: "string \<Rightarrow> string \<Rightarrow> basic_auth option" where
  "BasicAuth login password = (if CHR '':'' \<in> set login then None else Some (login, password))"

definition msg_not_integer :: string where
  "msg_not_integer = ''Invalid port number. Must be an integer.''"

definition quote :: string where
  "quote = [CHR 0x27]"

definition msg_bad_format :: string where
  "msg_bad_format =
     ''Invalid proxy format. Use '' @ quote @ ''ip:port'' @ quote @ '' or '' @
     quote @ ''ip:port:username:password'' @ quote"

definition msg_bad_range :: string where
  "msg_bad_range = ''Invalid port number. Port must be between 1 and 65535.''"

text \<open>
  \<open>_parse_proxy_string\<close>: \<open>Inl\<close> carries the error message the source returns as a plain
  string, \<open>Inr\<close> the tuple (host, port, auth).
\<close>

definition parse_proxy_string :: "string \<Rightarrow> string + (string \<times> int \<times> basic_auth option)" where
  "parse_proxy_string proxy_str =
     (case split CHR '':'' proxy_str of
        [host, port_str] \<Rightarrow>
          (case py_int port_str of
             None \<Rightarrow> Inl msg_not_integer
           | Some port \<Rightarrow> Inr (host, port, None))
      | [host, port_str, username, password] \<Rightarrow>
          (case py_int port_str of
             None \<Rightarrow> Inl msg_not_integer
           | Some port \<Rightarrow>
               (case BasicAuth username password of
                  None \<Rightarrow> Inl msg_not_integer
                | Some auth \<Rightarrow> Inr (host, port, Some auth)))
      | _ \<Rightarrow> Inl msg_bad_format)"

text \<open>\<open>_validate_ip_port\<close>: the host is not looked at.\<close>

definition validate_ip_port :: "string \<Rightarrow> int \<Rightarrow> string option" where
  "validate_ip_port host port = (if port < 1 \<or> port > 65535 then Some msg_bad_range else None)"

section \<open>Python values\<close>

text \<open>
  What \<open>json.loads\<close> yields. An object is kept as an association list; a parsed object has
  no repeated key, so the first binding of a key stands for the only one.
\<close>

datatype json =
    JNull
  | JBool bool
  | JNum rat
  | JStr string
  | JArr "json list"
  | JObj "(string \<times> json) list"

text \<open>Exceptions that the checker only logs; their messages play no part.\<close>

datatype py_error = TypeError | KeyError | IndexError | AttributeError | UnboundLocalError

text \<open>An exception whose text reaches the caller: class name and \<open>str(e)\<close>.\<close>

datatype py_exception = PyExc (exc_type: string) (exc_str: string)

text \<open>Truth value of a Python object (\<open>if data:\<close>).\<close>

fun truthy :: "json \<Rightarrow> bool" where
  "truthy JNull = False"
| "truthy (JBool b) = b"
| "truthy (JNum n) = (n \<noteq> 0)"
| "truthy (JStr s) = (s \<noteq> [])"
| "truthy (JArr xs) = (xs \<noteq> [])"
| "truthy (JObj kvs) = (kvs \<noteq> [])"

text \<open>
  \<open>key in data\<close>: key membership on a dict, element membership on a list, substring test
  on a string, \<open>TypeError\<close> on anything else.
\<close>

fun py_in :: "string \<Rightarrow> json \<Rightarrow> py_error + bool" where
  "py_in key (JObj kvs) = Inr (key \<in> set (map fst kvs))"
| "py_in key (JArr xs) = Inr (JStr key \<in> set xs)"
| "py_in key (JStr s) = Inr (contains key s)"
| "py_in key _ = Inl TypeError"

text \<open>\<open>data[key]\<close> with a string key.\<close>

fun py_getitem :: "json \<Rightarrow> string \<Rightarrow> py_error + json" where
  "py_getitem (JObj kvs) key = (case map_of kvs key of None \<Rightarrow> Inl KeyError | Some v \<Rightarrow> Inr v)"
| "py_getitem _ key = Inl TypeError"

text \<open>\<open>data.get(key, default)\<close>: only a dict has the method.\<close>

fun py_get :: "json \<Rightarrow> string \<Rightarrow> json \<Rightarrow> py_error + json" where
  "py_get (JObj kvs) key dflt = Inr (case map_of kvs key of None \<Rightarrow> dflt | Some v \<Rightarrow> v)"
| "py_get _ key dflt = Inl AttributeError"

section \<open>Probe results\<close>

type_synonym seconds = rat

text \<open>
  The dictionary built for one protocol. The keys \<open>ip\<close> and \<open>anonymity\<close> are optional;
  \<open>working\<close> holds whatever Python value was stored under it.
\<close>

record result =
  protocol :: string
  working :: json
  status :: string
  time :: seconds
  ip :: "json option"
  anonymity :: "string option"

definition REQUEST_TIMEOUT :: nat where
  "REQUEST_TIMEOUT = 18"

definition MAX_CONCURRENT_CHECKS :: nat where
  "MAX_CONCURRENT_CHECKS = 20"

definition CONNECT_TIMEOUT :: nat where
  "CONNECT_TIMEOUT = 12"

section \<open>The checker, its connector and its sessions\<close>

text \<open>
  The connector of aiohttp with the arguments the checker passes. The constructor of
  aiohttp refuses a keep-alive timeout together with \<open>force_close\<close>: it raises
  \<open>ValueError\<close> before a connector exists.
\<close>

record connector =
  conn_limit :: nat
  conn_limit_per_host :: nat
  conn_ssl :: bool
  conn_ttl_dns_cache :: nat
  conn_force_close :: bool
  conn_keepalive_timeout :: "seconds option"
  conn_closed :: bool

definition TCPConnector ::
  "nat \<Rightarrow> nat \<Rightarrow> bool \<Rightarrow> nat \<Rightarrow> bool \<Rightarrow> seconds option \<Rightarrow> py_exception + connector" where
  "TCPConnector limit limit_per_host ssl ttl_dns_cache force_close keepalive_timeout =
     (if force_close \<and> keepalive_timeout \<noteq> None
      then Inl (PyExc ''ValueError'' ''keepalive_timeout cannot be set if force_close is True'')
      else Inr \<lparr>conn_limit = limit, conn_limit_per_host = limit_per_host, conn_ssl = ssl,
                conn_ttl_dns_cache = ttl_dns_cache, conn_force_close = force_close,
                conn_keepalive_timeout = keepalive_timeout, conn_closed = False\<rparr>)"

text \<open>
  The state of a \<open>ProxyChecker\<close>: the capacity of its semaphore and its connector.
  \<open>proxy_checker\<close> is the instance the module creates, through which every check runs.
\<close>

record ProxyChecker =
  max_concurrent :: nat
  connector_of :: "connector option"

definition proxy_checker :: ProxyChecker where
  "proxy_checker = \<lparr>max_concurrent = MAX_CONCURRENT_CHECKS, connector_of = None\<rparr>"

text \<open>
  \<open>initialize\<close>: a missing or closed connector is created anew; the exception of the
  constructor leaves the checker as it was.
\<close>

definition initialize :: "ProxyChecker \<Rightarrow> py_exception + ProxyChecker" where
  "initialize self =
     (if (case connector_of self of None \<Rightarrow> True | Some c \<Rightarrow> conn_closed c)
      then (case TCPConnector (max_concurrent self) 2 False 300 True (Some 5) of
              Inl e \<Rightarrow> Inl e
            | Inr c \<Rightarrow> Inr (self\<lparr>connector_of := Some c\<rparr>))
      else Inr self)"

text \<open>\<open>get_client_session\<close>: a session on the connector, once \<open>initialize\<close> has returned.\<close>

record session =
  session_connector :: "connector option"
  timeout_total :: nat
  timeout_connect :: nat

definition get_client_session :: "ProxyChecker \<Rightarrow> py_exception + session" where
  "get_client_session self =
     (case initialize self of
        Inl e \<Rightarrow> Inl e
      | Inr self' \<Rightarrow>
          Inr \<lparr>session_connector = connector_of self', timeout_total = REQUEST_TIMEOUT,
               timeout_connect = CONNECT_TIMEOUT\<rparr>)"

text \<open>
  The functions below take the checker as they find it and do not return it: its state
  changes only when the constructor succeeds or a session is closed, and with the
  arguments above the constructor never succeeds.
\<close>

section \<open>Per-candidate probe\<close>

text \<open>
  What the network does to the request of one probe. A response carries its status code,
  the value of its \<open>Content-Type\<close> header (empty when absent), the measured time with
  its rendering by \<open>{elapsed:.2f}\<close> (float formatting is taken as given), and the fate
  of reading the body as JSON under the two-second limit.
\<close>

datatype body_read = BodyJson json | BodyTimeout | BodyError | BodyCancelled

record response =
  resp_status :: int
  content_type :: string
  elapsed :: seconds
  elapsed_2f :: string
  body :: body_read

text \<open>
  The exception that ends the request, by its concrete class: \<open>asyncio.TimeoutError\<close>,
  \<open>ClientProxyConnectionError\<close>, \<open>ClientConnectorError\<close> (connection refused),
  \<open>ClientConnectorSSLError\<close> (TLS failure), another \<open>ClientError\<close>,
  \<open>asyncio.CancelledError\<close>, or any other exception with its class name.
\<close>

datatype request_exc =
    TimeoutErr
  | ProxyConnectionErr
  | ConnectorErr
  | ConnectorSSLErr
  | OtherClientErr
  | CancelledErr
  | OtherErr string

datatype probe_event =
    RequestFailed request_exc
  | Responded response

text \<open>The classes named in the \<open>except\<close> clauses of \<open>_test_proxy\<close>.\<close>

datatype handler_class =
    H_TimeoutError
  | H_ClientProxyConnectionError
  | H_ClientConnectorError
  | H_ClientSSLError
  | H_ClientError
  | H_CancelledError
  | H_Exception

text \<open>
  \<open>isinstance\<close> along the class hierarchy of aiohttp and asyncio: under \<open>ClientError\<close>
  stands \<open>ClientConnectorError\<close>, whose subclasses include both
  \<open>ClientProxyConnectionError\<close> and \<open>ClientSSLError\<close>; \<open>ClientConnectorSSLError\<close> derives
  from \<open>ClientSSLError\<close>. \<open>CancelledError\<close> derives from \<open>BaseException\<close> only.
\<close>

fun isinstance :: "request_exc \<Rightarrow> handler_class \<Rightarrow> bool" where
  "isinstance TimeoutErr h = (h \<in> {H_TimeoutError, H_Exception})"
| "isinstance ProxyConnectionErr h =
     (h \<in> {H_ClientProxyConnectionError, H_ClientConnectorError, H_ClientError, H_Exception})"
| "isinstance ConnectorErr h = (h \<in> {H_ClientConnectorError, H_ClientError, H_Exception})"
| "isinstance ConnectorSSLErr h =
     (h \<in> {H_ClientSSLError, H_ClientConnectorError, H_ClientError, H_Exception})"
| "isinstance OtherClientErr h = (h \<in> {H_ClientError, H_Exception})"
| "isinstance CancelledErr h = (h = H_CancelledError)"
| "isinstance (OtherErr n) h = (h = H_Exception)"

definition type_name :: "request_exc \<Rightarrow> string" where
  "type_name e = (case e of
       TimeoutErr \<Rightarrow> ''TimeoutError''
     | ProxyConnectionErr \<Rightarrow> ''ClientProxyConnectionError''
     | ConnectorErr \<Rightarrow> ''ClientConnectorError''
     | ConnectorSSLErr \<Rightarrow> ''ClientConnectorSSLError''
     | OtherClientErr \<Rightarrow> ''ClientError''
     | CancelledErr \<Rightarrow> ''CancelledError''
     | OtherErr n \<Rightarrow> n)"

text \<open>
  The \<open>except\<close> clauses around the request, in the order of the source; the first clause
  whose class the exception is an instance of sets the status text.
\<close>

definition request_handlers :: "(handler_class \<times> (request_exc \<Rightarrow> string)) list" where
  "request_handlers =
     [(H_TimeoutError, \<lambda>e. cross_mark @ '' Timeout''),
      (H_ClientProxyConnectionError, \<lambda>e. cross_mark @ '' Proxy Connection Error''),
      (H_ClientConnectorError, \<lambda>e. cross_mark @ '' Connection Failed''),
      (H_ClientSSLError, \<lambda>e. cross_mark @ '' SSL Error''),
      (H_ClientError, \<lambda>e. cross_mark @ '' Client Error''),
      (H_CancelledError, \<lambda>e. cross_mark @ '' Request Cancelled''),
      (H_Exception, \<lambda>e. cross_mark @ '' Error: '' @ type_name e)]"

text \<open>\<open>None\<close>: no clause matches and the exception leaves the \<open>try\<close> statement.\<close>

fun handle :: "(handler_class \<times> (request_exc \<Rightarrow> string)) list \<Rightarrow> request_exc \<Rightarrow> string option" where
  "handle [] e = None"
| "handle ((h, f) # hs) e = (if isinstance e h then Some (f e) else handle hs e)"

text \<open>
  Exceptions of the request reach the inner \<open>except asyncio.TimeoutError\<close> first, then the
  outer clauses; whatever is left meets the outermost \<open>except Exception\<close>.
\<close>

definition on_request_exc :: "result \<Rightarrow> request_exc \<Rightarrow> result" where
  "on_request_exc res e =
     (if isinstance e H_TimeoutError then res\<lparr>status := cross_mark @ '' Request Timeout''\<rparr>
      else (case handle request_handlers e of
              Some text \<Rightarrow> res\<lparr>status := text\<rparr>
            | None \<Rightarrow> res\<lparr>status := cross_mark @ '' Error: '' @ type_name e\<rparr>))"

text \<open>Reading the reported address: raises before the assignment or stores the address.\<close>

definition enrich_ip :: "result \<Rightarrow> json \<Rightarrow> py_error + result" where
  "enrich_ip res response_json =
     (case py_in ''origin'' response_json of
        Inl err \<Rightarrow> Inl err
      | Inr True \<Rightarrow>
          (case py_getitem response_json ''origin'' of
             Inl err \<Rightarrow> Inl err
           | Inr (JStr s) \<Rightarrow>
               (case split CHR '','' s of
                  [] \<Rightarrow> Inl IndexError
                | first # _ \<Rightarrow> Inr (res\<lparr>ip := Some (JStr (strip first))\<rparr>))
           | Inr _ \<Rightarrow> Inl AttributeError)
      | Inr False \<Rightarrow>
          (case py_in ''query'' response_json of
             Inl err \<Rightarrow> Inl err
           | Inr True \<Rightarrow>
               (case py_getitem response_json ''query'' of
                  Inl err \<Rightarrow> Inl err
                | Inr v \<Rightarrow> Inr (res\<lparr>ip := Some v\<rparr>))
           | Inr False \<Rightarrow> Inr res))"

definition enrich_anonymity :: "result \<Rightarrow> json \<Rightarrow> py_error + result" where
  "enrich_anonymity res response_json =
     (case py_get response_json ''headers'' (JObj []) of
        Inl err \<Rightarrow> Inl err
      | Inr headers \<Rightarrow>
          (case py_get headers ''X-Forwarded-For'' (JStr []) of
             Inl err \<Rightarrow> Inl err
           | Inr forwarded_for \<Rightarrow>
               (case py_get headers ''X-Real-Ip'' (JStr []) of
                  Inl err \<Rightarrow> Inl err
                | Inr real_ip \<Rightarrow>
                    (case py_get headers ''Via'' (JStr []) of
                       Inl err \<Rightarrow> Inl err
                     | Inr via \<Rightarrow>
                         Inr (res\<lparr>anonymity := Some
                           (if \<not> truthy forwarded_for \<and> \<not> truthy real_ip \<and> \<not> truthy via
                            then ''Elite (Level 1)''
                            else if \<not> truthy forwarded_for \<and> (truthy real_ip \<or> truthy via)
                            then ''Anonymous (Level 2)''
                            else ''Transparent (Level 3)'')\<rparr>)))))"

text \<open>The \<open>try\<close> block around the enrichment: an exception keeps what was stored so far.\<close>

definition enrich :: "result \<Rightarrow> json \<Rightarrow> result" where
  "enrich res response_json =
     (case enrich_ip res response_json of
        Inl err \<Rightarrow> res
      | Inr res1 \<Rightarrow>
          (case enrich_anonymity res1 response_json of
             Inl err \<Rightarrow> res1
           | Inr res2 \<Rightarrow> res2))"

text \<open>
  \<open>_test_proxy\<close>. The session is created first; its exception meets the outermost
  \<open>except Exception\<close>, and no request is sent. \<open>ev\<close> is what the network does to the
  request once it is sent.
\<close>

definition test_proxy :: "ProxyChecker \<Rightarrow> string \<Rightarrow> probe_event \<Rightarrow> result" where
  "test_proxy self proto ev =
     (let res = \<lparr>protocol = proto, working = JBool False, status = cross_mark @ '' Failed'',
                 time = 0, ip = None, anonymity = None\<rparr>
      in case get_client_session self of
           Inl e \<Rightarrow> res\<lparr>status := cross_mark @ '' Error: '' @ exc_type e\<rparr>
         | Inr session \<Rightarrow>
        (case ev of
           RequestFailed e \<Rightarrow> on_request_exc res e
         | Responded r \<Rightarrow>
             (let res1 = res\<lparr>time := elapsed r\<rparr>
              in if resp_status r < 500 then
                   (let res2 = res1\<lparr>working := JBool True,
                                status := check_mark @ '' Working ('' @ elapsed_2f r @ ''s)''\<rparr>
                    in if contains ''application/json'' (content_type r) then
                         (case body r of
                            BodyJson response_json \<Rightarrow> enrich res2 response_json
                          | BodyTimeout \<Rightarrow> res2
                          | BodyError \<Rightarrow> res2
                          | BodyCancelled \<Rightarrow> on_request_exc res2 CancelledErr)
                       else res2\<lparr>working := JBool True\<rparr>)
                 else res1\<lparr>status := cross_mark @ '' HTTP '' @ show_int (resp_status r)\<rparr>)))"

section \<open>Protocol fallback tester\<close>

text \<open>
  The request of one candidate probe: the instant at which it is over, in milliseconds
  after the launch of the whole group, and what the network does to it.
\<close>

record candidate =
  finish :: nat
  event :: probe_event

text \<open>
  The instant at which the probe itself completes: a probe whose session cannot be created
  returns without suspending, at the launch.
\<close>

definition done_at :: "ProxyChecker \<Rightarrow> candidate \<Rightarrow> nat" where
  "done_at self c = (case get_client_session self of Inl e \<Rightarrow> 0 | Inr session \<Rightarrow> finish c)"

text \<open>The per-protocol limit, \<open>REQUEST_TIMEOUT * 1.5\<close> seconds, in milliseconds.\<close>

definition fallback_timeout_ms :: nat where
  "fallback_timeout_ms = REQUEST_TIMEOUT * 1000 * 3 div 2"

text \<open>\<open>asyncio.gather\<close> completes when the last of its awaitables has completed.\<close>

definition gather_done_at :: "nat list \<Rightarrow> nat" where
  "gather_done_at finishes = foldr max finishes 0"

text \<open>
  \<open>asyncio.wait_for(asyncio.gather(..., return_exceptions=True), timeout)\<close>: the list of
  results in the order of the awaitables when the group is complete before the limit has
  elapsed, \<open>None\<close> for \<open>asyncio.TimeoutError\<close> otherwise.
\<close>

definition wait_for_gather :: "nat \<Rightarrow> nat list \<Rightarrow> 'a list \<Rightarrow> 'a list option" where
  "wait_for_gather limit finishes results =
     (if gather_done_at finishes < limit then Some results else None)"

text \<open>
  The loop over the gathered results: an exception object is skipped, any other result
  becomes \<open>last_result\<close>, and the first result whose \<open>working\<close> entry is true is returned.
\<close>

fun scan_results :: "result \<Rightarrow> (py_exception + result) list \<Rightarrow> result" where
  "scan_results last_result [] = last_result"
| "scan_results last_result (Inl e # rest) = scan_results last_result rest"
| "scan_results last_result (Inr r # rest) =
     (if truthy (working r) then r else scan_results r rest)"

text \<open>
  The clean-up loop of the timeout branch calls \<open>done()\<close> on the elements of \<open>tasks\<close>, which
  are coroutine objects and have no such method: with a non-empty list the first iteration
  raises \<open>AttributeError\<close>.
\<close>

definition coroutine_done_error :: py_exception where
  "coroutine_done_error =
     PyExc ''AttributeError''
       (quote @ ''coroutine'' @ quote @ '' object has no attribute '' @ quote @ ''done'' @ quote)"

fun cancel_pending :: "'a list \<Rightarrow> py_exception option" where
  "cancel_pending [] = None"
| "cancel_pending (task # tasks) = Some coroutine_done_error"

definition default_result :: "string \<Rightarrow> result" where
  "default_result proto =
     \<lparr>protocol = proto, working = JBool False,
      status = cross_mark @ '' Not working with '' @ proto,
      time = 0, ip = None, anonymity = None\<rparr>"

text \<open>
  \<open>_test_proxy_with_fallbacks\<close>: \<open>probe\<close> tells the fate of the request of the probe
  launched for a target URL. \<open>_test_proxy\<close> turns every exception into a result, so each
  gathered entry is a result; the branch for exception objects is kept in \<open>scan_results\<close>.
\<close>

definition test_proxy_with_fallbacks ::
  "ProxyChecker \<Rightarrow> (string \<Rightarrow> candidate) \<Rightarrow> string list \<Rightarrow> string \<Rightarrow> py_exception + result" where
  "test_proxy_with_fallbacks self probe test_urls proto =
     (let tasks = map probe test_urls
      in case wait_for_gather fallback_timeout_ms (map (done_at self) tasks)
                (map (\<lambda>t. Inr (test_proxy self proto (event t))) tasks) of
           Some results \<Rightarrow> Inr (scan_results (default_result proto) results)
         | None \<Rightarrow>
             (case cancel_pending tasks of
                Some e \<Rightarrow> Inl e
              | None \<Rightarrow> Inr (default_result proto)))"

text \<open>The gathered entries that are results, in the order of the list.\<close>

fun completed_results :: "(py_exception + result) list \<Rightarrow> result list" where
  "completed_results [] = []"
| "completed_results (Inl e # rest) = completed_results rest"
| "completed_results (Inr r # rest) = r # completed_results rest"

section \<open>Socket prober\<close>

datatype connect_outcome = ConnectCode int | ConnectRaised

text \<open>
  \<open>_socket_connect\<close>: the IPv4 and the IPv6 attempt of the loop, then the IPv4 retry. A
  later attempt is made only when the earlier ones did not return 0.
\<close>

definition socket_connect :: "connect_outcome \<Rightarrow> connect_outcome \<Rightarrow> connect_outcome \<Rightarrow> int" where
  "socket_connect ipv4 ipv6 retry =
     (if ipv4 = ConnectCode 0 then 0
      else if ipv6 = ConnectCode 0 then 0
      else (case retry of ConnectCode code \<Rightarrow> code | ConnectRaised \<Rightarrow> 111))"

text \<open>What the worker thread delivers: the three attempts, or an exception with its text.\<close>

datatype socket_event =
    Attempts connect_outcome connect_outcome connect_outcome
  | ExecutorRaised string

record socket_result =
  sock_connected :: bool
  sock_time :: seconds
  sock_error :: "string option"

definition check_socket_connection :: "socket_event \<Rightarrow> seconds \<Rightarrow> socket_result" where
  "check_socket_connection ev connection_time =
     (let res = \<lparr>sock_connected = False, sock_time = 0, sock_error = None\<rparr>
      in case ev of
           Attempts ipv4 ipv6 retry \<Rightarrow>
             (let connection_result = socket_connect ipv4 ipv6 retry;
                  res1 = res\<lparr>sock_time := connection_time\<rparr>
              in if connection_result \<noteq> 0
                 then res1\<lparr>sock_error :=
                        Some (''Connection error (code: '' @ show_int connection_result @ '')'')\<rparr>
                 else res1\<lparr>sock_connected := True\<rparr>)
         | ExecutorRaised text \<Rightarrow> res\<lparr>sock_error := Some (''Error: '' @ text)\<rparr>)"

section \<open>External validation client\<close>

text \<open>
  What the network does to the request to the validation service: an exception of the
  request, or a response with its status code, the measured time and the parsed body
  (\<open>None\<close> when reading the body as JSON raises or exceeds its five seconds).
\<close>

datatype api_event =
    ApiRequestFailed
  | ApiResponded int seconds "json option"

definition api_result :: "string \<Rightarrow> seconds \<Rightarrow> json \<Rightarrow> result" where
  "api_result proto t flag =
     \<lparr>protocol = proto, working = flag,
      status = (if truthy flag then check_mark @ '' Working'' else cross_mark @ '' Failed''),
      time = t, ip = None, anonymity = None\<rparr>"

text \<open>
  The choice of \<open>result_data\<close>; when neither branch assigns it, its first use raises
  \<open>UnboundLocalError\<close>.
\<close>

definition select_result_data :: "json \<Rightarrow> py_error + json" where
  "select_result_data data =
     (case py_in ''status'' data of
        Inl err \<Rightarrow> Inl err
      | Inr has_status \<Rightarrow>
          (case (if has_status
                 then (case py_getitem data ''status'' of
                         Inl err \<Rightarrow> Inl err
                       | Inr v \<Rightarrow> Inr (v = JStr ''success''))
                 else Inr False) of
             Inl err \<Rightarrow> Inl err
           | Inr True \<Rightarrow> py_get data ''data'' (JObj [])
           | Inr False \<Rightarrow>
               (case py_in ''isHttpProxyValid'' data of
                  Inl err \<Rightarrow> Inl err
                | Inr True \<Rightarrow> Inr data
                | Inr False \<Rightarrow>
                    (case py_in ''isHttpsProxyValid'' data of
                       Inl err \<Rightarrow> Inl err
                     | Inr True \<Rightarrow> Inr data
                     | Inr False \<Rightarrow> Inl UnboundLocalError))))"

definition api_results :: "seconds \<Rightarrow> json \<Rightarrow> py_error + (result \<times> result \<times> result \<times> result)" where
  "api_results t data =
     (case select_result_data data of
        Inl err \<Rightarrow> Inl err
      | Inr result_data \<Rightarrow>
          (case py_get result_data ''isHttpProxyValid'' (JBool False) of
             Inl err \<Rightarrow> Inl err
           | Inr http \<Rightarrow>
               (case py_get result_data ''isHttpsProxyValid'' (JBool False) of
                  Inl err \<Rightarrow> Inl err
                | Inr https \<Rightarrow>
                    (case py_get result_data ''isSocks4ProxyValid'' (JBool False) of
                       Inl err \<Rightarrow> Inl err
                     | Inr socks4 \<Rightarrow>
                         (case py_get result_data ''isSocks5ProxyValid'' (JBool False) of
                            Inl err \<Rightarrow> Inl err
                          | Inr socks5 \<Rightarrow>
                              Inr (api_result ''HTTP'' t http, api_result ''HTTPS'' t https,
                                   api_result ''SOCKS4'' t socks4,
                                   api_result ''SOCKS5'' t socks5))))))"

text \<open>
  The three nested \<open>try\<close> blocks around the call. The session is created inside the
  outermost one; its exception, like every other, is logged and control reaches the
  fallback (\<open>None\<close>); so does a status outside the range and an empty body.
\<close>

definition external_validation ::
  "ProxyChecker \<Rightarrow> api_event \<Rightarrow> (result \<times> result \<times> result \<times> result) option" where
  "external_validation self ev =
     (case get_client_session self of
        Inl e \<Rightarrow> None
      | Inr session \<Rightarrow>
     (case ev of
        ApiRequestFailed \<Rightarrow> None
      | ApiResponded code t parsed \<Rightarrow>
          if 200 \<le> code \<and> code < 500 then
            (case parsed of
               None \<Rightarrow> None
             | Some data \<Rightarrow>
                 if truthy data then
                   (case api_results t data of
                      Inl err \<Rightarrow> None
                    | Inr results \<Rightarrow> Some results)
                 else None)
          else None))"

section \<open>Checking one endpoint\<close>

text \<open>
  Everything the network does to the check of one endpoint: the socket probe with its
  measured time, and what it does to the request to the validation service and to the
  request of the fallback probe for a protocol, a proxy URL and a target URL, when those
  requests are sent.
\<close>

record network =
  net_socket :: socket_event
  net_socket_time :: seconds
  net_api :: api_event
  net_probe :: "string \<Rightarrow> string \<Rightarrow> string \<Rightarrow> candidate"

text \<open>
  The effects of a check, in program order: taking and giving back one unit of the
  semaphore, and the network operations started.
\<close>

datatype effect =
    Acquire
  | Release
  | SocketProbe string int
  | ApiCall string int
  | FallbackProbe string string string

definition is_network_op :: "effect \<Rightarrow> bool" where
  "is_network_op e = (case e of Acquire \<Rightarrow> False | Release \<Rightarrow> False | _ \<Rightarrow> True)"

text \<open>
  The arguments handed to \<open>_format_response\<close>; the rendering of the report as text (with
  its float formatting) is not modelled.
\<close>

record report =
  rep_proxy_str :: string
  rep_connection_time :: seconds
  rep_http :: result
  rep_https :: result
  rep_socks4 :: result
  rep_socks5 :: result
  rep_username :: "string option"

datatype reply = Text string | Formatted report

text \<open>The four groups of the fallback: proxy URL, target URLs, protocol.\<close>

definition fallback_plan ::
  "string \<Rightarrow> int \<Rightarrow> basic_auth option \<Rightarrow> (string \<times> string list \<times> string) list" where
  "fallback_plan host port auth =
     (let proxy_url = host @ '':'' @ show_int port;
          cred = (case auth of None \<Rightarrow> [] | Some (login, password) \<Rightarrow> login @ '':'' @ password @ ''@'');
          http_proxy = ''http://'' @ cred @ proxy_url;
          socks4_proxy = ''socks4://'' @ cred @ proxy_url;
          socks5_proxy = ''socks5://'' @ cred @ proxy_url
      in [(http_proxy,
            [''http://httpbin.org/get'', ''http://ip-api.com/json'', ''http://example.com''],
            ''HTTP''),
          (http_proxy,
            [''https://httpbin.org/get'', ''https://ifconfig.me/all.json'', ''https://example.com''],
            ''HTTPS''),
          (socks4_proxy,
            [''http://httpbin.org/get'', ''http://ip.jsontest.com'', ''http://example.com''],
            ''SOCKS4''),
          (socks5_proxy,
            [''http://httpbin.org/get'', ''http://ip-api.com/json'', ''http://example.com''],
            ''SOCKS5'')])"

text \<open>
  The requests started: a probe, like the call of the validation service, sends its request
  only when its session has been created.
\<close>

definition probe_effects :: "ProxyChecker \<Rightarrow> (string \<times> string list \<times> string) \<Rightarrow> effect list" where
  "probe_effects self grp =
     (case grp of (proxy, test_urls, proto) \<Rightarrow>
        (case get_client_session self of
           Inl e \<Rightarrow> []
         | Inr session \<Rightarrow> map (\<lambda>url. FallbackProbe proto proxy url) test_urls))"

definition api_effects :: "ProxyChecker \<Rightarrow> string \<Rightarrow> int \<Rightarrow> effect list" where
  "api_effects self host port =
     (case get_client_session self of Inl e \<Rightarrow> [] | Inr session \<Rightarrow> [ApiCall host port])"

text \<open>
  \<open>asyncio.gather\<close> without \<open>return_exceptions\<close>: an exception of a member is raised to the
  caller. All members that raise here raise the same exception.
\<close>

fun gather_all :: "(py_exception + 'a) list \<Rightarrow> py_exception + 'a list" where
  "gather_all [] = Inr []"
| "gather_all (Inl e # rest) = Inl e"
| "gather_all (Inr x # rest) = (case gather_all rest of Inl e \<Rightarrow> Inl e | Inr xs \<Rightarrow> Inr (x # xs))"

text \<open>The body of \<open>ProxyChecker.check_proxy\<close> inside \<open>async with self.semaphore\<close>.\<close>

definition check_proxy_body ::
  "ProxyChecker \<Rightarrow> network \<Rightarrow> string \<Rightarrow> string option \<Rightarrow>
     effect list \<times> (py_exception + reply)" where
  "check_proxy_body self net proxy_str username =
     (case parse_proxy_string proxy_str of
        Inl message \<Rightarrow> ([], Inr (Text message))
      | Inr (host, port, auth) \<Rightarrow>
          (case validate_ip_port host port of
             Some message \<Rightarrow> ([], Inr (Text message))
           | None \<Rightarrow>
               (let socket_result = check_socket_connection (net_socket net) (net_socket_time net)
                in case sock_error socket_result of
                     Some (c # cs) \<Rightarrow>
                       ([SocketProbe host port],
                        Inr (Text (cross_mark @ '' Proxy <code>'' @ proxy_str @
                                   ''</code> is not responding. '' @ (c # cs))))
                   | _ \<Rightarrow>
                       (let connection_time = sock_time socket_result;
                            api = api_effects self host port
                        in case external_validation self (net_api net) of
                             Some (http_result, https_result, socks4_result, socks5_result) \<Rightarrow>
                               ([SocketProbe host port] @ api,
                                Inr (Formatted
                                  \<lparr>rep_proxy_str = proxy_str, rep_connection_time = connection_time,
                                   rep_http = http_result, rep_https = https_result,
                                   rep_socks4 = socks4_result, rep_socks5 = socks5_result,
                                   rep_username = username\<rparr>))
                           | None \<Rightarrow>
                               (let plan = fallback_plan host port auth;
                                    effects = [SocketProbe host port] @ api @
                                              concat (map (probe_effects self) plan)
                                in case gather_all
                                          (map (\<lambda>(proxy, test_urls, proto).
                                                  test_proxy_with_fallbacks self
                                                    (net_probe net proto proxy) test_urls proto)
                                               plan) of
                                     Inl e \<Rightarrow> (effects, Inl e)
                                   | Inr [http_result, https_result, socks4_result, socks5_result] \<Rightarrow>
                                       (effects,
                                        Inr (Formatted
                                          \<lparr>rep_proxy_str = proxy_str,
                                           rep_connection_time = connection_time,
                                           rep_http = http_result, rep_https = https_result,
                                           rep_socks4 = socks4_result, rep_socks5 = socks5_result,
                                           rep_username = username\<rparr>))
                                   | Inr _ \<Rightarrow>
                                       (effects,
                                        Inl (PyExc ''ValueError'' ''not enough values to unpack'')))))))"

text \<open>
  \<open>ProxyChecker.check_proxy\<close>: the \<open>async with\<close> statement takes one unit before the body
  and gives it back when the body is left, by return or by exception.
\<close>

definition ProxyChecker_check_proxy ::
  "ProxyChecker \<Rightarrow> network \<Rightarrow> string \<Rightarrow> string option \<Rightarrow>
     effect list \<times> (py_exception + reply)" where
  "ProxyChecker_check_proxy self net proxy_str username =
     (case check_proxy_body self net proxy_str username of
        (effects, outcome) \<Rightarrow> (Acquire # effects @ [Release], outcome))"

text \<open>
  The module-level \<open>check_proxy\<close>: it runs the check on the module's \<open>proxy_checker\<close>,
  and an exception becomes an error text.
\<close>

definition check_proxy :: "network \<Rightarrow> string \<Rightarrow> string option \<Rightarrow> effect list \<times> reply" where
  "check_proxy net proxy_str username =
     (case ProxyChecker_check_proxy proxy_checker net proxy_str username of
        (effects, Inl e) \<Rightarrow>
          (effects, Text (cross_mark @ '' An error occurred while checking the proxy: '' @ exc_str e))
      | (effects, Inr out) \<Rightarrow> (effects, out))"

section \<open>Batch orchestrator\<close>

text \<open>\<open>range(start, stop, step)\<close> for non-negative arguments; a zero step raises.\<close>

function range_from :: "nat \<Rightarrow> nat \<Rightarrow> nat \<Rightarrow> nat list" where
  "range_from i stop step =
     (if step = 0 \<or> stop \<le> i then [] else i # range_from (i + step) stop step)"
  by pat_completeness auto
termination
  by (relation "measure (\<lambda>(i, stop, step). stop - i)") auto

declare range_from.simps [simp del]

definition py_range :: "nat \<Rightarrow> nat \<Rightarrow> nat \<Rightarrow> py_exception + nat list" where
  "py_range start stop step =
     (if step = 0 then Inl (PyExc ''ValueError'' ''range() arg 3 must not be zero'')
      else Inr (range_from start stop step))"

text \<open>
  The surroundings of a batch call: the network met by the check of the endpoint at each
  index, and whether the wait for the sub-batch that starts at an index runs into its limit
  of three request timeouts.
\<close>

record batch_network =
  endpoint_network :: "nat \<Rightarrow> network"
  batch_times_out :: "nat \<Rightarrow> bool"

text \<open>
  The steps of the orchestrator itself: \<open>asyncio.create_task\<close> for the check of an index,
  which schedules the check to run from the next suspension of the orchestrator on, and the
  wait for the tasks of a slice of indices.
\<close>

datatype action = CreateTask nat string | AwaitBatch "nat list"

definition proxy_at :: "string list \<Rightarrow> nat \<Rightarrow> string" where
  "proxy_at proxy_list proxy_idx =
     (if proxy_idx < length proxy_list then proxy_list ! proxy_idx else ''unknown'')"

text \<open>One turn of the loop over the sub-batches; \<open>batch\<close> is \<open>tasks[i:i+batch_size]\<close>.\<close>

definition process_batch ::
  "batch_network \<Rightarrow> string list \<Rightarrow> nat \<Rightarrow> (py_exception + reply) list \<Rightarrow> reply list" where
  "process_batch env proxy_list i batch =
     (if batch_times_out env i then
        map (\<lambda>j. Text (cross_mark @ '' Timeout checking proxy '' @ proxy_at proxy_list (i + j)))
            [0..<length batch]
      else
        map (\<lambda>(j, res). case res of
                          Inl e \<Rightarrow> Text (cross_mark @ '' Error checking proxy '' @
                                          proxy_at proxy_list (i + j) @ '': '' @ exc_str e)
                        | Inr out \<Rightarrow> out)
            (zip [0..<length batch] batch))"

text \<open>
  \<open>check_multiple_proxies\<close>. It first awaits \<open>proxy_checker.initialize()\<close>; an exception
  there, like the \<open>ValueError\<close> of \<open>range\<close>, reaches the outer handler, which returns a
  list with one error text. The outcome of the task of index \<open>i\<close> is what \<open>check_proxy\<close>
  returns for the \<open>i\<close>-th string.
\<close>

definition check_multiple_proxies ::
  "batch_network \<Rightarrow> string list \<Rightarrow> string option \<Rightarrow> action list \<times> reply list" where
  "check_multiple_proxies env proxy_list username =
     (case initialize proxy_checker of
        Inl e \<Rightarrow>
          ([], [Text (cross_mark @ '' An error occurred in batch processing: '' @ exc_str e)])
      | Inr initialized \<Rightarrow>
     (let tasks = map (\<lambda>(i, proxy). Inr (snd (check_proxy (endpoint_network env i) proxy username)))
                      (zip [0..<length proxy_list] proxy_list);
          created = map (\<lambda>(i, proxy). CreateTask i proxy) (zip [0..<length proxy_list] proxy_list);
          batch_size = min 10 (length proxy_list)
      in case py_range 0 (length tasks) batch_size of
           Inl e \<Rightarrow>
             (created,
              [Text (cross_mark @ '' An error occurred in batch processing: '' @ exc_str e)])
         | Inr starts \<Rightarrow>
             (created @
                map (\<lambda>i. AwaitBatch [i..<i + length (take batch_size (drop i tasks))]) starts,
              concat (map (\<lambda>i. process_batch env proxy_list i (take batch_size (drop i tasks)))
                          starts))))"

section \<open>Concurrent checks under the semaphore\<close>

text \<open>
  The semaphore of a checker is an \<open>asyncio.Semaphore\<close> created with \<open>max_concurrent\<close> units.
  \<open>acquire\<close> takes a unit when one is left and lets the caller wait otherwise; \<open>release\<close>
  gives a unit back.
\<close>

definition sem_acquire :: "nat \<Rightarrow> nat option" where
  "sem_acquire v = (if 0 < v then Some (v - 1) else None)"

definition sem_release :: "nat \<Rightarrow> nat" where
  "sem_release v = v + 1"

text \<open>
  A call of \<open>check_proxy\<close> that is running: the effects it has performed so far, in program
  order, and the effects still ahead of it.
\<close>

record task =
  performed :: "effect list"
  todo :: "effect list"

text \<open>
  The event loop: the units left in the semaphore of \<open>proxy_checker\<close>, and the calls. A
  call that is made later is a call that has not moved yet.
\<close>

record system =
  sem_value :: nat
  running :: "task list"

type_synonym call = "network \<times> string \<times> string option"

definition launch :: "call list \<Rightarrow> system" where
  "launch calls =
     \<lparr>sem_value = max_concurrent proxy_checker,
      running = map (\<lambda>(net, proxy_str, username).
                     \<lparr>performed = [], todo = fst (check_proxy net proxy_str username)\<rparr>) calls\<rparr>"

text \<open>
  One move of the event loop: the call of index \<open>i\<close> performs its next effect. A call that
  waits for a unit cannot move, nor can a call that has returned. (The semaphore of the
  library also lets a caller wait behind earlier waiters while a unit is left; the moves of
  the program are among the moves allowed here.)
\<close>

definition advance :: "nat \<Rightarrow> system \<Rightarrow> system option" where
  "advance i s =
     (if length (running s) \<le> i then None
      else case todo (running s ! i) of
             [] \<Rightarrow> None
           | e # rest \<Rightarrow>
               (let t = \<lparr>performed = performed (running s ! i) @ [e], todo = rest\<rparr>
                in case e of
                     Acquire \<Rightarrow>
                       (case sem_acquire (sem_value s) of
                          None \<Rightarrow> None
                        | Some v \<Rightarrow> Some \<lparr>sem_value = v, running = (running s)[i := t]\<rparr>)
                   | Release \<Rightarrow>
                       Some \<lparr>sem_value = sem_release (sem_value s), running = (running s)[i := t]\<rparr>
                   | _ \<Rightarrow> Some \<lparr>sem_value = sem_value s, running = (running s)[i := t]\<rparr>))"

text \<open>A run follows a schedule: the indices of the calls that move, one after the other.\<close>

fun run :: "nat list \<Rightarrow> system \<Rightarrow> system option" where
  "run [] s = Some s"
| "run (i # sched) s = (case advance i s of None \<Rightarrow> None | Some s' \<Rightarrow> run sched s')"

text \<open>The calls that are inside \<open>async with self.semaphore\<close>.\<close>

definition holds_unit :: "task \<Rightarrow> bool" where
  "holds_unit t = (Acquire \<in> set (performed t) \<and> Release \<notin> set (performed t))"

definition holders :: "system \<Rightarrow> nat" where
  "holders s = length (filter holds_unit (running s))"

text \<open>
  The network operations in flight. A call awaits every operation it starts before it
  leaves \<open>async with\<close> (the socket probe is awaited, and the \<open>with\<close> statement around its
  executor waits for the worker thread), so the operations in flight are among those
  started by the calls that have not performed \<open>Release\<close>; all of these are counted.
\<close>

definition in_flight_of :: "task \<Rightarrow> nat" where
  "in_flight_of t =
     (if Release \<in> set (performed t) then 0 else length (filter is_network_op (performed t)))"

definition in_flight :: "system \<Rightarrow> nat" where
  "in_flight s = sum_list (map in_flight_of (running s))"

text \<open>
  The shape of a call on the module's checker, used as an invariant of the runs: its
  effects, performed and ahead, are one unit taken, at most a socket probe, and the unit
  given back.
\<close>

definition in_check :: "task \<Rightarrow> bool" where
  "in_check t =
     (case performed t @ todo t of
        [Acquire, Release] \<Rightarrow> True
      | [Acquire, SocketProbe host port, Release] \<Rightarrow> True
      | _ \<Rightarrow> False)"

section \<open>Example inputs\<close>

text \<open>A network on which the socket probe is refused and every request fails.\<close>

definition example_network :: network where
  "example_network =
     \<lparr>net_socket = Attempts (ConnectCode 111) ConnectRaised (ConnectCode 111),
      net_socket_time = 1,
      net_api = ApiRequestFailed,
      net_probe = (\<lambda>proto proxy url. \<lparr>finish = 100, event = RequestFailed ConnectorErr\<rparr>)\<rparr>"

text \<open>A network on which the worker thread of the socket probe raises.\<close>

definition raising_network :: network where
  "raising_network = example_network\<lparr>net_socket := ExecutorRaised ''boom''\<rparr>"

text \<open>
  A response without a JSON body, received after the given number of seconds, with the
  rendering of that number to two decimals.
\<close>

definition plain_response :: "int \<Rightarrow> seconds \<Rightarrow> string \<Rightarrow> probe_event" where
  "plain_response code secs shown =
     Responded \<lparr>resp_status = code, content_type = ''text/html'', elapsed = secs,
                elapsed_2f = shown, body = BodyError\<rparr>"


definition race_probe :: "string \<Rightarrow> candidate" where
  "race_probe url =
     (if url = ''http://httpbin.org/get''
      then \<lparr>finish = 10000, event = plain_response 200 10 ''10.00''\<rparr>
      else if url = ''http://ip-api.com/json''
      then \<lparr>finish = 1000, event = plain_response 200 1 ''1.00''\<rparr>
      else \<lparr>finish = 12000, event = plain_response 503 12 ''12.00''\<rparr>)"

text \<open>
  The end-to-end scenario of the specification: the socket of the endpoint connects, the
  validation service would answer with status 200 and the four flags at the top level
  (HTTP valid, the others not), and every target would answer through the proxy as in the
  race above.
\<close>

definition scenario_network :: network where
  "scenario_network =
     \<lparr>net_socket = Attempts (ConnectCode 0) ConnectRaised ConnectRaised,
      net_socket_time = 1 / 20,
      net_api = ApiResponded 200 (1 / 2)
        (Some (JObj [(''isHttpProxyValid'', JBool True), (''isHttpsProxyValid'', JBool False),
                     (''isSocks4ProxyValid'', JBool False), (''isSocks5ProxyValid'', JBool False)])),
      net_probe = (\<lambda>proto proxy url. race_probe url)\<rparr>"

text \<open>A batch call on that network, without any batch timeout.\<close>

definition example_batch :: batch_network where
  "example_batch = \<lparr>endpoint_network = (\<lambda>i. scenario_network), batch_times_out = (\<lambda>i. False)\<rparr>"

section \<open>Properties of the parser and validator\<close>

lemmas text_defs =
  py_int_def ascii_int_def is_ascii_def max_str_digits_def strip_with_def strip_def
  is_int_space_def is_str_space_def ord_def digits_def is_digit_def digit_val_def

lemma split_not_Nil: "split c s \<noteq> []"
  by (induction s) (auto split: list.splits)

lemma split_no_sep: "f \<in> set (split c s) \<Longrightarrow> c \<notin> set f"
proof (induction s arbitrary: f)
  case Nil
  then show ?case by simp
next
  case (Cons x xs)
  show ?case
  proof (cases "x = c")
    case True
    with Cons show ?thesis by auto
  next
    case False
    obtain w ws where sp: "split c xs = w # ws"
      using split_not_Nil [of c xs] by (cases "split c xs") auto
    with False Cons.prems have "f = x # w \<or> f \<in> set ws" by auto
    then show ?thesis
    proof
      assume "f = x # w"
      moreover have "c \<notin> set w" using Cons.IH [of w] sp by simp
      ultimately show ?thesis using False by auto
    next
      assume "f \<in> set ws"
      then show ?thesis using Cons.IH [of f] sp by simp
    qed
  qed
qed

lemma BasicAuth_field:
  "split CHR '':'' s = [a, b, u, p] \<Longrightarrow> BasicAuth u p = Some (u, p)"
  using split_no_sep [of u "CHR '':''" s] by (simp add: BasicAuth_def)

lemma messages_distinct:
  "msg_bad_format \<noteq> msg_not_integer" "msg_not_integer \<noteq> msg_bad_range" "msg_bad_format \<noteq> msg_bad_range"
  by (simp_all add: msg_bad_format_def msg_not_integer_def msg_bad_range_def)

lemma parse_two:
  "split CHR '':'' s = [h, p] \<Longrightarrow>
   parse_proxy_string s = (case py_int p of None \<Rightarrow> Inl msg_not_integer | Some n \<Rightarrow> Inr (h, n, None))"
  by (simp add: parse_proxy_string_def)

lemma parse_four:
  "split CHR '':'' s = [h, p, u, w] \<Longrightarrow>
   parse_proxy_string s = (case py_int p of None \<Rightarrow> Inl msg_not_integer | Some n \<Rightarrow> Inr (h, n, Some (u, w)))"
  using BasicAuth_field [of s h p u w]
  by (simp add: parse_proxy_string_def split: option.splits)

lemma parse_other:
  "length (split CHR '':'' s) \<noteq> 2 \<Longrightarrow> length (split CHR '':'' s) \<noteq> 4 \<Longrightarrow>
   parse_proxy_string s = Inl msg_bad_format"
  by (auto simp: parse_proxy_string_def split: list.splits)

lemma len2: "length xs = 2 \<Longrightarrow> xs = [xs ! 0, xs ! 1]"
  by (cases xs; cases "tl xs"; auto)

lemma len4: "length xs = 4 \<Longrightarrow> xs = [xs ! 0, xs ! 1, xs ! 2, xs ! 3]"
proof -
  assume a: "length xs = 4"
  then obtain a b c d where "xs = [a, b, c, d]"
    by (auto simp: length_Suc_conv numeral_eq_Suc)
  then show ?thesis by simp
qed



lemma check_proxy_parse_error:
  "parse_proxy_string s = Inl m \<Longrightarrow> check_proxy net s u = ([Acquire, Release], Text m)"
  by (simp add: check_proxy_def ProxyChecker_check_proxy_def check_proxy_body_def)

lemma check_proxy_range_error:
  "parse_proxy_string s = Inr (h, p, a) \<Longrightarrow> validate_ip_port h p = Some m \<Longrightarrow>
   check_proxy net s u = ([Acquire, Release], Text m)"
  by (simp add: check_proxy_def ProxyChecker_check_proxy_def check_proxy_body_def)

text \<open>
  C5: the raw string is split at colons. With a field count other than 2 and 4 the parser
  returns the format error; with 2 or 4 fields and a port field that \<open>int\<close> rejects it
  returns the numeric-format error; otherwise it succeeds with the first field as the host,
  unchanged and unexamined, the parsed port, and the credentials of a four-field string.
  The validator returns the range error exactly for a port outside 1..65535, whatever the
  host. The three messages differ. When parsing or validation fails, the check takes and
  gives back its unit of the semaphore and starts no network operation.
\<close>

theorem parse_and_validate_endpoint:
  "(length (split CHR '':'' s) \<noteq> 2 \<and> length (split CHR '':'' s) \<noteq> 4 \<longrightarrow>
      parse_proxy_string s = Inl msg_bad_format) \<and>
   ((length (split CHR '':'' s) = 2 \<or> length (split CHR '':'' s) = 4) \<and>
      py_int (split CHR '':'' s ! 1) = None \<longrightarrow>
      parse_proxy_string s = Inl msg_not_integer) \<and>
   (length (split CHR '':'' s) = 2 \<and> py_int (split CHR '':'' s ! 1) = Some port \<longrightarrow>
      parse_proxy_string s = Inr (split CHR '':'' s ! 0, port, None)) \<and>
   (length (split CHR '':'' s) = 4 \<and> py_int (split CHR '':'' s ! 1) = Some port \<longrightarrow>
      parse_proxy_string s =
        Inr (split CHR '':'' s ! 0, port, Some (split CHR '':'' s ! 2, split CHR '':'' s ! 3))) \<and>
   (p < 1 \<or> 65535 < p \<longrightarrow> validate_ip_port host p = Some msg_bad_range) \<and>
   (1 \<le> p \<and> p \<le> 65535 \<longrightarrow> validate_ip_port host p = None) \<and>
   msg_bad_format \<noteq> msg_not_integer \<and> msg_not_integer \<noteq> msg_bad_range \<and>
   msg_bad_format \<noteq> msg_bad_range \<and>
   (parse_proxy_string s = Inl m \<longrightarrow> check_proxy net s u = ([Acquire, Release], Text m)) \<and>
   (parse_proxy_string s = Inr (h, n, a) \<and> validate_ip_port h n = Some m \<longrightarrow>
      check_proxy net s u = ([Acquire, Release], Text m))"
proof -
  let ?parts = "split CHR '':'' s"
  have other: "length ?parts \<noteq> 2 \<and> length ?parts \<noteq> 4 \<longrightarrow> parse_proxy_string s = Inl msg_bad_format"
    using parse_other by blast
  have two: "length ?parts = 2 \<Longrightarrow>
      parse_proxy_string s =
        (case py_int (?parts ! 1) of None \<Rightarrow> Inl msg_not_integer
         | Some k \<Rightarrow> Inr (?parts ! 0, k, None))"
    using parse_two [of s "?parts ! 0" "?parts ! 1"] len2 [of ?parts] by simp
  have four: "length ?parts = 4 \<Longrightarrow>
      parse_proxy_string s =
        (case py_int (?parts ! 1) of None \<Rightarrow> Inl msg_not_integer
         | Some k \<Rightarrow> Inr (?parts ! 0, k, Some (?parts ! 2, ?parts ! 3)))"
    using parse_four [of s "?parts ! 0" "?parts ! 1" "?parts ! 2" "?parts ! 3"] len4 [of ?parts]
    by simp
  have bad: "(length ?parts = 2 \<or> length ?parts = 4) \<and> py_int (?parts ! 1) = None \<longrightarrow>
      parse_proxy_string s = Inl msg_not_integer"
    using two four by auto
  have good2: "length ?parts = 2 \<and> py_int (?parts ! 1) = Some port \<longrightarrow>
      parse_proxy_string s = Inr (?parts ! 0, port, None)"
    using two by auto
  have good4: "length ?parts = 4 \<and> py_int (?parts ! 1) = Some port \<longrightarrow>
      parse_proxy_string s = Inr (?parts ! 0, port, Some (?parts ! 2, ?parts ! 3))"
    using four by auto
  have range: "(p < 1 \<or> 65535 < p \<longrightarrow> validate_ip_port host p = Some msg_bad_range) \<and>
      (1 \<le> p \<and> p \<le> 65535 \<longrightarrow> validate_ip_port host p = None)"
    by (simp add: validate_ip_port_def)
  have quiet: "(parse_proxy_string s = Inl m \<longrightarrow> check_proxy net s u = ([Acquire, Release], Text m)) \<and>
      (parse_proxy_string s = Inr (h, n, a) \<and> validate_ip_port h n = Some m \<longrightarrow>
         check_proxy net s u = ([Acquire, Release], Text m))"
    using check_proxy_parse_error check_proxy_range_error by blast
  from other bad good2 good4 range messages_distinct quiet show ?thesis by blast
qed

theorem parse_and_validate_endpoint_witness:
  "parse_proxy_string ''1.2.3.4'' = Inl msg_bad_format \<and>
   parse_proxy_string ''1.2.3.4:abc'' = Inl msg_not_integer \<and>
   parse_proxy_string ''1.2.3.4:8080'' = Inr (''1.2.3.4'', 8080, None) \<and>
   parse_proxy_string ''1.2.3.4:8080:bob:pw'' = Inr (''1.2.3.4'', 8080, Some (''bob'', ''pw'')) \<and>
   validate_ip_port ''1.2.3.4'' 99999 = Some msg_bad_range \<and>
   validate_ip_port ''1.2.3.4'' 8080 = None \<and>
   check_proxy example_network ''1.2.3.4'' None = ([Acquire, Release], Text msg_bad_format) \<and>
   check_proxy example_network ''1.2.3.4:99999'' None = ([Acquire, Release], Text msg_bad_range)"
proof -
  have f1: "length (split CHR '':'' ''1.2.3.4'') \<noteq> 2 \<and> length (split CHR '':'' ''1.2.3.4'') \<noteq> 4"
    by simp
  have f2: "(length (split CHR '':'' ''1.2.3.4:abc'') = 2 \<or> length (split CHR '':'' ''1.2.3.4:abc'') = 4) \<and>
      py_int (split CHR '':'' ''1.2.3.4:abc'' ! 1) = None"
    by (simp add: parse_proxy_string_def validate_ip_port_def text_defs)
  have f3: "length (split CHR '':'' ''1.2.3.4:8080'') = 2 \<and>
      py_int (split CHR '':'' ''1.2.3.4:8080'' ! 1) = Some 8080"
    by (simp add: parse_proxy_string_def validate_ip_port_def text_defs)
  have f4: "length (split CHR '':'' ''1.2.3.4:8080:bob:pw'') = 4 \<and>
      py_int (split CHR '':'' ''1.2.3.4:8080:bob:pw'' ! 1) = Some 8080"
    by (simp add: parse_proxy_string_def validate_ip_port_def text_defs)
  have s3: "split CHR '':'' ''1.2.3.4:8080'' ! 0 = ''1.2.3.4''" by simp
  have s4: "split CHR '':'' ''1.2.3.4:8080:bob:pw'' ! 0 = ''1.2.3.4'' \<and>
      split CHR '':'' ''1.2.3.4:8080:bob:pw'' ! 2 = ''bob'' \<and>
      split CHR '':'' ''1.2.3.4:8080:bob:pw'' ! 3 = ''pw''" by simp
  have f5: "parse_proxy_string ''1.2.3.4:99999'' = Inr (''1.2.3.4'', 99999, None)"
    by (simp add: parse_proxy_string_def text_defs)
  have c1: "parse_proxy_string ''1.2.3.4'' = Inl msg_bad_format"
    using parse_and_validate_endpoint [of "''1.2.3.4''"] f1 by blast
  have c2: "parse_proxy_string ''1.2.3.4:abc'' = Inl msg_not_integer"
    using parse_and_validate_endpoint [of "''1.2.3.4:abc''"] f2 by blast
  have c3: "parse_proxy_string ''1.2.3.4:8080'' = Inr (''1.2.3.4'', 8080, None)"
    using parse_and_validate_endpoint [of "''1.2.3.4:8080''" 8080] f3 s3 by metis
  have c4: "parse_proxy_string ''1.2.3.4:8080:bob:pw'' = Inr (''1.2.3.4'', 8080, Some (''bob'', ''pw''))"
    using parse_and_validate_endpoint [of "''1.2.3.4:8080:bob:pw''" 8080] f4 s4 by metis
  have c5: "validate_ip_port ''1.2.3.4'' 99999 = Some msg_bad_range"
    using parse_and_validate_endpoint [where p = 99999 and host = "''1.2.3.4''"] by simp
  have c6: "validate_ip_port ''1.2.3.4'' 8080 = None"
    using parse_and_validate_endpoint [where p = 8080 and host = "''1.2.3.4''"] by simp
  have c7: "check_proxy example_network ''1.2.3.4'' None = ([Acquire, Release], Text msg_bad_format)"
    using parse_and_validate_endpoint [where s = "''1.2.3.4''" and m = msg_bad_format
        and net = example_network and u = None] c1 by blast
  have c8: "check_proxy example_network ''1.2.3.4:99999'' None = ([Acquire, Release], Text msg_bad_range)"
    using parse_and_validate_endpoint [where s = "''1.2.3.4:99999''" and m = msg_bad_range
        and net = example_network and u = None and h = "''1.2.3.4''" and n = 99999 and a = None
        and p = 99999 and host = "''1.2.3.4''"] f5
    by simp
  from c1 c2 c3 c4 c5 c6 c7 c8 show ?thesis by blast
qed

text \<open>
  C10: the port field goes through \<open>int\<close> and through nothing else, so the parser accepts
  exactly the port fields that \<open>int\<close> accepts, with the value \<open>int\<close> gives, and answers
  with the numeric-format error for the others. White space around the number, an explicit
  sign and single underscores between digits are accepted: \<open>host: 80\<close> with a trailing
  blank, \<open>host:+80\<close> and \<open>host:8_0\<close> all parse to port 80, which the validator accepts. A
  doubled, leading or trailing underscore, a blank inside the number, a prefix such as
  \<open>0x\<close>, and a literal of more than 4300 digits are refused.
\<close>

theorem int_forms_accepted:
  "(length (split CHR '':'' s) = 2 \<and> py_int (split CHR '':'' s ! 1) = Some port \<longrightarrow>
      parse_proxy_string s = Inr (split CHR '':'' s ! 0, port, None)) \<and>
   (length (split CHR '':'' s) = 4 \<and> py_int (split CHR '':'' s ! 1) = Some port \<longrightarrow>
      parse_proxy_string s =
        Inr (split CHR '':'' s ! 0, port, Some (split CHR '':'' s ! 2, split CHR '':'' s ! 3))) \<and>
   ((length (split CHR '':'' s) = 2 \<or> length (split CHR '':'' s) = 4) \<and>
      py_int (split CHR '':'' s ! 1) = None \<longrightarrow>
      parse_proxy_string s = Inl msg_not_integer) \<and>
   py_int ''80'' = Some 80 \<and> py_int '' 80 '' = Some 80 \<and> py_int ''+80'' = Some 80 \<and>
   py_int ''8_0'' = Some 80 \<and> py_int ''+443'' = Some 443 \<and> py_int ''0_0_8'' = Some 8 \<and>
   py_int ''-80'' = Some (- 80) \<and>
   py_int ''8__0'' = None \<and> py_int ''_80'' = None \<and> py_int ''80_'' = None \<and>
   py_int ''+ 80'' = None \<and> py_int ''8 0'' = None \<and> py_int ''0x50'' = None \<and>
   py_int ''abc'' = None \<and> py_int [] = None \<and> py_int (replicate 4301 (CHR ''1'')) = None \<and>
   parse_proxy_string ''host: 80 '' = Inr (''host'', 80, None) \<and>
   parse_proxy_string ''host:+80'' = Inr (''host'', 80, None) \<and>
   parse_proxy_string ''host:8_0'' = Inr (''host'', 80, None) \<and>
   parse_proxy_string ''host:8__0'' = Inl ''Invalid port number. Must be an integer.'' \<and>
   validate_ip_port ''host'' 80 = None"
proof -
  let ?parts = "split CHR '':'' s"
  have two: "length ?parts = 2 \<Longrightarrow>
      parse_proxy_string s =
        (case py_int (?parts ! 1) of None \<Rightarrow> Inl msg_not_integer
         | Some k \<Rightarrow> Inr (?parts ! 0, k, None))"
    using parse_two [of s "?parts ! 0" "?parts ! 1"] len2 [of ?parts] by simp
  have four: "length ?parts = 4 \<Longrightarrow>
      parse_proxy_string s =
        (case py_int (?parts ! 1) of None \<Rightarrow> Inl msg_not_integer
         | Some k \<Rightarrow> Inr (?parts ! 0, k, Some (?parts ! 2, ?parts ! 3)))"
    using parse_four [of s "?parts ! 0" "?parts ! 1" "?parts ! 2" "?parts ! 3"] len4 [of ?parts]
    by simp
  have g: "(length ?parts = 2 \<and> py_int (?parts ! 1) = Some port \<longrightarrow>
      parse_proxy_string s = Inr (?parts ! 0, port, None)) \<and>
   (length ?parts = 4 \<and> py_int (?parts ! 1) = Some port \<longrightarrow>
      parse_proxy_string s = Inr (?parts ! 0, port, Some (?parts ! 2, ?parts ! 3))) \<and>
   ((length ?parts = 2 \<or> length ?parts = 4) \<and> py_int (?parts ! 1) = None \<longrightarrow>
      parse_proxy_string s = Inl msg_not_integer)"
    using two four by auto
  have a: "py_int ''80'' = Some 80" "py_int '' 80 '' = Some 80" "py_int ''+80'' = Some 80"
    "py_int ''8_0'' = Some 80" "py_int ''+443'' = Some 443" "py_int ''0_0_8'' = Some 8"
    "py_int ''-80'' = Some (- 80)"
    by (simp_all add: text_defs)
  have r: "py_int ''8__0'' = None" "py_int ''_80'' = None" "py_int ''80_'' = None"
    "py_int ''+ 80'' = None" "py_int ''8 0'' = None" "py_int ''0x50'' = None"
    "py_int ''abc'' = None" "py_int [] = None"
    by (simp_all add: text_defs)
  have big: "py_int (replicate 4301 (CHR ''1'')) = None"
    by (simp add: py_int_def ascii_int_def is_ascii_def max_str_digits_def is_digit_def ord_def
        list_all_iff)
  have p: "parse_proxy_string ''host: 80 '' = Inr (''host'', 80, None)"
    "parse_proxy_string ''host:+80'' = Inr (''host'', 80, None)"
    "parse_proxy_string ''host:8_0'' = Inr (''host'', 80, None)"
    "parse_proxy_string ''host:8__0'' = Inl ''Invalid port number. Must be an integer.''"
    "validate_ip_port ''host'' 80 = None"
    by (simp_all add: parse_proxy_string_def validate_ip_port_def msg_not_integer_def text_defs)
  from g a r big p show ?thesis by blast
qed

theorem int_forms_accepted_witness:
  "parse_proxy_string ''proxy.example.org: 8_080 '' = Inr (''proxy.example.org'', 8080, None) \<and>
   parse_proxy_string ''h:+1:u:p'' = Inr (''h'', 1, Some (''u'', ''p'')) \<and>
   parse_proxy_string ''h:1__0'' = Inl msg_not_integer"
proof -
  have f1: "length (split CHR '':'' ''proxy.example.org: 8_080 '') = 2 \<and>
      py_int (split CHR '':'' ''proxy.example.org: 8_080 '' ! 1) = Some 8080"
    by (simp add: text_defs)
  have s1: "split CHR '':'' ''proxy.example.org: 8_080 '' ! 0 = ''proxy.example.org''" by simp
  have f2: "length (split CHR '':'' ''h:+1:u:p'') = 4 \<and>
      py_int (split CHR '':'' ''h:+1:u:p'' ! 1) = Some 1"
    by (simp add: text_defs)
  have s2: "split CHR '':'' ''h:+1:u:p'' ! 0 = ''h'' \<and> split CHR '':'' ''h:+1:u:p'' ! 2 = ''u'' \<and>
      split CHR '':'' ''h:+1:u:p'' ! 3 = ''p''" by simp
  have f3: "(length (split CHR '':'' ''h:1__0'') = 2 \<or> length (split CHR '':'' ''h:1__0'') = 4) \<and>
      py_int (split CHR '':'' ''h:1__0'' ! 1) = None"
    by (simp add: text_defs)
  have c1: "parse_proxy_string ''proxy.example.org: 8_080 '' = Inr (''proxy.example.org'', 8080, None)"
    using int_forms_accepted [of "''proxy.example.org: 8_080 ''" 8080] f1 s1 by metis
  have c2: "parse_proxy_string ''h:+1:u:p'' = Inr (''h'', 1, Some (''u'', ''p''))"
    using int_forms_accepted [of "''h:+1:u:p''" 1] f2 s2 by metis
  have c3: "parse_proxy_string ''h:1__0'' = Inl msg_not_integer"
    using int_forms_accepted [of "''h:1__0''"] f3 by blast
  from c1 c2 c3 show ?thesis by blast
qed

section \<open>A dead socket ends the check\<close>

lemma socket_error_text:
  "(\<exists>a b c. ev = Attempts a b c \<and> socket_connect a b c \<noteq> 0) \<or> (\<exists>t. ev = ExecutorRaised t) \<Longrightarrow>
   sock_error (check_socket_connection ev t0) =
     Some (case ev of
             Attempts a b c \<Rightarrow> ''Connection error (code: '' @ show_int (socket_connect a b c) @ '')''
           | ExecutorRaised t \<Rightarrow> ''Error: '' @ t)"
  by (auto simp: check_socket_connection_def Let_def)

lemma check_proxy_dead_socket:
  "parse_proxy_string proxy_str = Inr (host, port, auth) \<Longrightarrow>
   validate_ip_port host port = None \<Longrightarrow>
   sock_error (check_socket_connection (net_socket net) (net_socket_time net)) = Some (c # cs) \<Longrightarrow>
   check_proxy net proxy_str username =
     ([Acquire, SocketProbe host port, Release],
      Text (cross_mark @ '' Proxy <code>'' @ proxy_str @ ''</code> is not responding. '' @ (c # cs)))"
  by (simp add: check_proxy_def ProxyChecker_check_proxy_def check_proxy_body_def)

text \<open>
  C9: for a string that parses and validates, when the socket probe ends with a non-zero
  code or with an exception, the check returns at once the text that the proxy "is not
  responding", made of the cross mark, the string as it was given inside \<open><code>\<close> tags, and
  the error of the probe: the connection error with its code, or the text of the
  exception. The socket probe is the only network operation of the check: no call of the
  validation service and no fallback probe is started.
\<close>

theorem dead_socket_ends_check:
  assumes "parse_proxy_string proxy_str = Inr (host, port, auth)"
    and "validate_ip_port host port = None"
    and "(\<exists>a b c. net_socket net = Attempts a b c \<and> socket_connect a b c \<noteq> 0) \<or>
         (\<exists>t. net_socket net = ExecutorRaised t)"
  shows "check_proxy net proxy_str username =
           ([Acquire, SocketProbe host port, Release],
            Text (cross_mark @ '' Proxy <code>'' @ proxy_str @ ''</code> is not responding. '' @
                  (case net_socket net of
                     Attempts a b c \<Rightarrow>
                       ''Connection error (code: '' @ show_int (socket_connect a b c) @ '')''
                   | ExecutorRaised t \<Rightarrow> ''Error: '' @ t))) \<and>
         filter is_network_op (fst (check_proxy net proxy_str username)) = [SocketProbe host port] \<and>
         cross_mark = [CHR 0xE2, CHR 0x9D, CHR 0x8C]"
proof -
  let ?err = "case net_socket net of
                Attempts a b c \<Rightarrow> ''Connection error (code: '' @ show_int (socket_connect a b c) @ '')''
              | ExecutorRaised t \<Rightarrow> ''Error: '' @ t"
  have e: "sock_error (check_socket_connection (net_socket net) (net_socket_time net)) = Some ?err"
    using socket_error_text [OF assms(3)] .
  obtain c cs where n: "?err = c # cs"
    by (cases "net_socket net") auto
  have "check_proxy net proxy_str username =
     ([Acquire, SocketProbe host port, Release],
      Text (cross_mark @ '' Proxy <code>'' @ proxy_str @ ''</code> is not responding. '' @ ?err))"
    using check_proxy_dead_socket [OF assms(1) assms(2), of net c cs username] e n by simp
  then show ?thesis by (simp add: is_network_op_def cross_mark_def)
qed

theorem dead_socket_ends_check_witness:
  "check_proxy example_network ''1.2.3.4:8080'' None =
     ([Acquire, SocketProbe ''1.2.3.4'' 8080, Release],
      Text ([CHR 0xE2, CHR 0x9D, CHR 0x8C] @
            '' Proxy <code>1.2.3.4:8080</code> is not responding. Connection error (code: 111)'')) \<and>
   check_proxy raising_network ''1.2.3.4:8080'' (Some ''bob'') =
     ([Acquire, SocketProbe ''1.2.3.4'' 8080, Release],
      Text ([CHR 0xE2, CHR 0x9D, CHR 0x8C] @
            '' Proxy <code>1.2.3.4:8080</code> is not responding. Error: boom''))"
proof -
  have p: "parse_proxy_string ''1.2.3.4:8080'' = Inr (''1.2.3.4'', 8080, None)"
    by (simp add: parse_proxy_string_def text_defs)
  have v: "validate_ip_port ''1.2.3.4'' 8080 = None"
    by (simp add: validate_ip_port_def)
  have s1: "(\<exists>a b c. net_socket example_network = Attempts a b c \<and> socket_connect a b c \<noteq> 0) \<or>
         (\<exists>t. net_socket example_network = ExecutorRaised t)"
    by (simp add: example_network_def socket_connect_def)
  have s2: "(\<exists>a b c. net_socket raising_network = Attempts a b c \<and> socket_connect a b c \<noteq> 0) \<or>
         (\<exists>t. net_socket raising_network = ExecutorRaised t)"
    by (simp add: raising_network_def)
  have n: "show_int 111 = ''111''"
    by (simp add: show_int_def digit_char_def)
  have c1: "check_proxy example_network ''1.2.3.4:8080'' None =
     ([Acquire, SocketProbe ''1.2.3.4'' 8080, Release],
      Text ([CHR 0xE2, CHR 0x9D, CHR 0x8C] @
            '' Proxy <code>1.2.3.4:8080</code> is not responding. Connection error (code: 111)''))"
    using dead_socket_ends_check [OF p v s1, of None] n
    by (simp add: example_network_def socket_connect_def)
  have c2: "check_proxy raising_network ''1.2.3.4:8080'' (Some ''bob'') =
     ([Acquire, SocketProbe ''1.2.3.4'' 8080, Release],
      Text ([CHR 0xE2, CHR 0x9D, CHR 0x8C] @
            '' Proxy <code>1.2.3.4:8080</code> is not responding. Error: boom''))"
    using dead_socket_ends_check [OF p v s2, of "Some ''bob''"]
    by (simp add: raising_network_def)
  from c1 c2 show ?thesis by blast
qed

section \<open>No session is ever created\<close>

lemma initialize_raises:
  "initialize proxy_checker =
     Inl (PyExc ''ValueError'' ''keepalive_timeout cannot be set if force_close is True'')"
  by (simp add: initialize_def proxy_checker_def TCPConnector_def)

lemma no_session:
  "get_client_session proxy_checker =
     Inl (PyExc ''ValueError'' ''keepalive_timeout cannot be set if force_close is True'')"
  by (simp add: get_client_session_def initialize_raises)

lemma session_failed_probe:
  "test_proxy proxy_checker proto ev =
     \<lparr>protocol = proto, working = JBool False, status = cross_mark @ '' Error: ValueError'',
      time = 0, ip = None, anonymity = None\<rparr>"
  by (simp add: test_proxy_def no_session)

lemma probes_done_at_launch: "done_at proxy_checker c = 0"
  by (simp add: done_at_def no_session)

lemma group_in_time:
  "gather_done_at (map (done_at proxy_checker) tasks) < fallback_timeout_ms"
  by (induction tasks)
     (simp_all add: gather_done_at_def probes_done_at_launch fallback_timeout_ms_def
        REQUEST_TIMEOUT_def)

lemma scan_results_none:
  "\<forall>q. Inr q \<in> set rs \<longrightarrow> \<not> truthy (working q) \<Longrightarrow>
   scan_results d rs = last (d # completed_results rs)"
  by (induction d rs rule: scan_results.induct) auto

lemma completed_map:
  "completed_results (map (\<lambda>u. Inr (f u)) urls) = map f urls"
  by (induction urls) auto

lemma fallbacks_on_proxy_checker:
  "test_proxy_with_fallbacks proxy_checker probe test_urls proto =
     Inr (last (default_result proto #
                map (\<lambda>u. test_proxy proxy_checker proto (event (probe u))) test_urls))"
proof -
  let ?rs = "map (\<lambda>u. Inr (test_proxy proxy_checker proto (event (probe u)))) test_urls"
  have none: "\<forall>q. Inr q \<in> set ?rs \<longrightarrow> \<not> truthy (working q)"
    by (auto simp: session_failed_probe)
  have "test_proxy_with_fallbacks proxy_checker probe test_urls proto =
        Inr (scan_results (default_result proto) ?rs)"
    using group_in_time [of "map probe test_urls"]
    by (simp add: test_proxy_with_fallbacks_def wait_for_gather_def Let_def comp_def)
  also have "scan_results (default_result proto) ?rs =
             last (default_result proto # completed_results ?rs)"
    using scan_results_none [OF none] .
  finally show ?thesis
    using completed_map [of "\<lambda>u. test_proxy proxy_checker proto (event (probe u))" test_urls]
    by simp
qed

lemma fallbacks_nonempty:
  "test_urls \<noteq> [] \<Longrightarrow>
   test_proxy_with_fallbacks proxy_checker probe test_urls proto =
     Inr \<lparr>protocol = proto, working = JBool False, status = cross_mark @ '' Error: ValueError'',
          time = 0, ip = None, anonymity = None\<rparr>"
  by (simp add: fallbacks_on_proxy_checker session_failed_probe last_map)

text \<open>
  The timeout branch, which the module's checker never reaches: with a non-empty group that
  is not complete when the limit has elapsed, the clean-up loop raises.
\<close>

lemma timed_out_raises:
  "\<not> gather_done_at (map (done_at self) (map probe test_urls)) < fallback_timeout_ms \<Longrightarrow>
   test_proxy_with_fallbacks self probe test_urls proto = Inl coroutine_done_error"
  by (cases test_urls)
     (simp_all add: test_proxy_with_fallbacks_def wait_for_gather_def gather_done_at_def
        fallback_timeout_ms_def REQUEST_TIMEOUT_def Let_def)

section \<open>The probes and the fallback without a session\<close>

text \<open>
  The clauses around the request, for the record: a TLS failure is an instance of
  \<open>ClientConnectorError\<close>, whose clause stands first, so the handlers give it the text of
  a refused connection and never the text "SSL Error".
\<close>

lemma ssl_clause_unreachable:
  "on_request_exc res ConnectorSSLErr = on_request_exc res ConnectorErr \<and>
   status (on_request_exc res ConnectorSSLErr) = cross_mark @ '' Connection Failed'' \<and>
   status (on_request_exc res e) \<noteq> cross_mark @ '' SSL Error''"
  by (cases e) (simp_all add: on_request_exc_def request_handlers_def)





section \<open>The validation service and the batch without a session\<close>

lemma no_validation: "external_validation proxy_checker ev = None"
  by (simp add: external_validation_def no_session)

lemma no_api_call: "api_effects proxy_checker host port = []"
  by (simp add: api_effects_def no_session)

lemma no_probe_request: "concat (map (probe_effects proxy_checker) plan) = []"
  by (induction plan) (auto simp add: probe_effects_def no_session)

lemma fallback_results:
  "gather_all (map (\<lambda>(proxy, test_urls, proto).
       test_proxy_with_fallbacks proxy_checker (net_probe net proto proxy) test_urls proto)
     (fallback_plan host port auth)) =
   Inr (map (\<lambda>proto. \<lparr>protocol = proto, working = JBool False,
                        status = cross_mark @ '' Error: ValueError'',
                        time = 0, ip = None, anonymity = None\<rparr>)
            [''HTTP'', ''HTTPS'', ''SOCKS4'', ''SOCKS5''])"
  by (simp add: fallback_plan_def Let_def fallbacks_nonempty)


text \<open>
  C3, where the code departs from it: the reply of \<open>check_multiple_proxies\<close> has one entry
  for every input list, whatever its length, and the entry belongs to no endpoint. The
  first statement of the function awaits \<open>proxy_checker.initialize()\<close>, which raises the
  \<open>ValueError\<close> of the connector; the outer handler returns a list holding the one text
  "An error occurred in batch processing: keepalive_timeout cannot be set if force_close
  is True". For two endpoint strings the reply has one entry, not two.
\<close>

theorem batch_reply_is_one_error_entry:
  "snd (check_multiple_proxies env proxy_list username) =
     [Text ([CHR 0xE2, CHR 0x9D, CHR 0x8C] @
        '' An error occurred in batch processing: keepalive_timeout cannot be set if force_close is True'')] \<and>
   length (snd (check_multiple_proxies env proxy_list username)) = 1 \<and>
   length (snd (check_multiple_proxies example_batch [''203.0.113.5:3128'', ''198.51.100.7:8080''] None)) \<noteq>
     length [''203.0.113.5:3128'', ''198.51.100.7:8080'']"
  by (simp add: check_multiple_proxies_def initialize_raises cross_mark_def)


section \<open>The ceiling on the network operations in flight\<close>

lemma body_effects:
  "fst (check_proxy_body proxy_checker net proxy_str username) = [] \<or>
   (\<exists>host port. fst (check_proxy_body proxy_checker net proxy_str username) = [SocketProbe host port])"
  by (auto simp add: check_proxy_body_def Let_def no_validation no_api_call no_probe_request
      fallback_results split: sum.splits option.splits list.splits prod.splits)

lemma check_proxy_effects:
  "fst (check_proxy net proxy_str username) =
     Acquire # fst (check_proxy_body proxy_checker net proxy_str username) @ [Release]"
  by (simp add: check_proxy_def ProxyChecker_check_proxy_def split: prod.splits sum.splits)

lemma check_proxy_trace:
  "fst (check_proxy net proxy_str username) = [Acquire, Release] \<or>
   (\<exists>host port. fst (check_proxy net proxy_str username) = [Acquire, SocketProbe host port, Release])"
  using body_effects [of net proxy_str username] by (auto simp add: check_proxy_effects)

lemma check_proxy_ops:
  "fst (check_proxy net proxy_str username) =
     Acquire # filter is_network_op (fst (check_proxy net proxy_str username)) @ [Release] \<and>
   length (filter is_network_op (fst (check_proxy net proxy_str username))) \<le> 1"
  using check_proxy_trace [of net proxy_str username] by (auto simp add: is_network_op_def)

lemma sum_list_map_update:
  fixes f :: "'a \<Rightarrow> nat"
  shows "i < length xs \<Longrightarrow>
    sum_list (map f (xs[i := y])) + f (xs ! i) = sum_list (map f xs) + f y"
  by (induction xs arbitrary: i) (auto split: nat.splits)

lemma length_filter_sum:
  "length (filter P xs) = sum_list (map (\<lambda>x. if P x then 1 else 0) xs)"
  by (induction xs) auto

lemma task_cases:
  assumes "performed t @ todo t = [Acquire, Release] \<or>
           (\<exists>host port. performed t @ todo t = [Acquire, SocketProbe host port, Release])"
  shows "(performed t = [] \<and> (todo t = [Acquire, Release] \<or> (\<exists>host port. todo t = [Acquire, SocketProbe host port, Release]))) \<or>
         (performed t = [Acquire] \<and> (todo t = [Release] \<or> (\<exists>host port. todo t = [SocketProbe host port, Release]))) \<or>
         (\<exists>host port. performed t = [Acquire, SocketProbe host port] \<and> todo t = [Release]) \<or>
         ((performed t = [Acquire, Release] \<or> (\<exists>host port. performed t = [Acquire, SocketProbe host port, Release])) \<and> todo t = [])"
  using assms by (auto simp add: append_eq_Cons_conv Cons_eq_append_conv)


lemma in_check_iff:
  "in_check t \<longleftrightarrow>
     (performed t @ todo t = [Acquire, Release] \<or>
      (\<exists>host port. performed t @ todo t = [Acquire, SocketProbe host port, Release]))"
  by (auto simp add: in_check_def split: list.splits effect.splits)

lemma launched_in_check: "\<forall>t\<in>set (running (launch calls)). in_check t"
proof
  fix t assume "t \<in> set (running (launch calls))"
  then obtain net proxy_str username
    where "t = \<lparr>performed = [], todo = fst (check_proxy net proxy_str username)\<rparr>"
    by (auto simp add: launch_def)
  then show "in_check t"
    using check_proxy_trace [of net proxy_str username] by (simp add: in_check_iff)
qed

lemma launched_units: "sem_value (launch calls) + holders (launch calls) = 20"
proof -
  have "filter holds_unit (running (launch calls)) = []"
    by (auto simp add: launch_def holds_unit_def filter_empty_conv)
  then show ?thesis
    by (simp add: holders_def launch_def proxy_checker_def MAX_CONCURRENT_CHECKS_def)
qed

lemma in_check_in_flight:
  "in_check t \<Longrightarrow> in_flight_of t \<le> (if holds_unit t then 1 else 0)"
  using task_cases [of t]
  by (auto simp add: in_check_iff in_flight_of_def holds_unit_def is_network_op_def)

lemma in_check_returned: "in_check t \<Longrightarrow> todo t = [] \<Longrightarrow> \<not> holds_unit t"
  using task_cases [of t] by (auto simp add: in_check_iff holds_unit_def)

lemma in_check_started:
  "in_check t \<Longrightarrow> filter is_network_op (performed t) \<noteq> [] \<Longrightarrow> Acquire \<in> set (performed t)"
  using task_cases [of t] by (auto simp add: in_check_iff)

lemma in_flight_le_holders:
  "\<forall>t\<in>set (running s). in_check t \<Longrightarrow> in_flight s \<le> holders s"
  unfolding in_flight_def holders_def length_filter_sum
  by (rule sum_list_mono) (simp add: in_check_in_flight)

lemma advance_invariant:
  assumes inv: "\<forall>t\<in>set (running s). in_check t" "sem_value s + holders s = n"
    and step: "advance i s = Some s'"
  shows "(\<forall>t\<in>set (running s'). in_check t) \<and> sem_value s' + holders s' = n"
proof -
  from step have i: "i < length (running s)"
    by (auto simp add: advance_def split: if_splits)
  define t where "t = running s ! i"
  from step i obtain e rest where todo: "todo t = e # rest"
    by (auto simp add: advance_def t_def split: if_splits list.splits)
  define t' where "t' = \<lparr>performed = performed t @ [e], todo = rest\<rparr>"
  have t_in: "in_check t" using inv(1) i by (simp add: t_def)
  have t'_in: "in_check t'" using t_in todo by (simp add: in_check_iff t'_def)
  have running': "running s' = (running s)[i := t']"
    using step i todo
    by (auto simp add: advance_def t_def t'_def Let_def split: if_splits effect.splits option.splits)
  have all': "\<forall>u\<in>set (running s'). in_check u"
  proof
    fix u assume "u \<in> set (running s')"
    then have "u \<in> insert t' (set (running s))"
      using set_update_subset_insert [of "running s" i t'] by (auto simp add: running')
    then show "in_check u" using inv(1) t'_in by auto
  qed
  have count: "holders s' + (if holds_unit t then 1 else 0) = holders s + (if holds_unit t' then 1 else 0)"
    unfolding holders_def length_filter_sum running' t_def
    using sum_list_map_update [OF i, of "\<lambda>x. if holds_unit x then 1 else 0" t'] by simp
  have units: "sem_value s' + holders s' = n"
  proof (cases e)
    case Acquire
    with task_cases [of t] t_in todo have p: "performed t = []" by (auto simp add: in_check_iff)
    have "\<not> holds_unit t" "holds_unit t'" using p Acquire by (simp_all add: holds_unit_def t'_def)
    moreover have "0 < sem_value s \<and> sem_value s' = sem_value s - 1"
      using step i todo Acquire
      by (auto simp add: advance_def t_def Let_def sem_acquire_def split: if_splits)
    ultimately show ?thesis using count inv(2) by simp
  next
    case Release
    with task_cases [of t] t_in todo have p: "Acquire \<in> set (performed t)" "Release \<notin> set (performed t)"
      by (auto simp add: in_check_iff)
    have "holds_unit t" "\<not> holds_unit t'" using p Release by (simp_all add: holds_unit_def t'_def)
    moreover have "sem_value s' = sem_value s + 1"
      using step i todo Release
      by (auto simp add: advance_def t_def Let_def sem_release_def split: if_splits)
    ultimately show ?thesis using count inv(2) by simp
  next
    case (SocketProbe host port)
    with task_cases [of t] t_in todo have p: "performed t = [Acquire]" by (auto simp add: in_check_iff)
    have "holds_unit t" "holds_unit t'" using p SocketProbe by (simp_all add: holds_unit_def t'_def)
    moreover have "sem_value s' = sem_value s"
      using step i todo SocketProbe
      by (auto simp add: advance_def t_def Let_def split: if_splits)
    ultimately show ?thesis using count inv(2) by simp
  next
    case (ApiCall host port)
    with task_cases [of t] t_in todo show ?thesis by (auto simp add: in_check_iff)
  next
    case (FallbackProbe proto proxy url)
    with task_cases [of t] t_in todo show ?thesis by (auto simp add: in_check_iff)
  qed
  from all' units show ?thesis by simp
qed

lemma run_invariant:
  "run sched s = Some s' \<Longrightarrow> \<forall>t\<in>set (running s). in_check t \<Longrightarrow> sem_value s + holders s = n \<Longrightarrow>
     (\<forall>t\<in>set (running s'). in_check t) \<and> sem_value s' + holders s' = n"
proof (induction sched arbitrary: s)
  case Nil
  then show ?case by simp
next
  case (Cons i sched)
  from Cons.prems(1) obtain s1 where s1: "advance i s = Some s1" "run sched s1 = Some s'"
    by (auto split: option.splits)
  from advance_invariant [OF Cons.prems(2) Cons.prems(3) s1(1)] Cons.IH [OF s1(2)]
  show ?case by simp
qed

lemma blocked_without_unit:
  "sem_value s = 0 \<Longrightarrow> i < length (running s) \<Longrightarrow> todo (running s ! i) = Acquire # rest \<Longrightarrow>
     advance i s = None"
  by (simp add: advance_def sem_acquire_def)

lemma scenario_check_effects:
  "fst (check_proxy scenario_network ''203.0.113.5:3128'' None) =
     [Acquire, SocketProbe ''203.0.113.5'' 3128, Release]"
proof -
  have p: "parse_proxy_string ''203.0.113.5:3128'' = Inr (''203.0.113.5'', 3128, None)"
    by (simp add: parse_proxy_string_def text_defs)
  have v: "validate_ip_port ''203.0.113.5'' 3128 = None"
    by (simp add: validate_ip_port_def)
  have s: "check_socket_connection (net_socket scenario_network) (net_socket_time scenario_network) =
      \<lparr>sock_connected = True, sock_time = 1 / 20, sock_error = None\<rparr>"
    by (simp add: scenario_network_def check_socket_connection_def socket_connect_def)
  have "fst (check_proxy_body proxy_checker scenario_network ''203.0.113.5:3128'' None) =
      [SocketProbe ''203.0.113.5'' 3128]"
    by (simp add: check_proxy_body_def p v s Let_def no_validation no_api_call
        no_probe_request fallback_results)
  then show ?thesis by (simp add: check_proxy_effects)
qed

lemma scenario_launch:
  "launch (replicate n (scenario_network, ''203.0.113.5:3128'', None)) =
     \<lparr>sem_value = 20,
      running = replicate n \<lparr>performed = [],
                  todo = [Acquire, SocketProbe ''203.0.113.5'' 3128, Release]\<rparr>\<rparr>"
  by (simp add: launch_def scenario_check_effects proxy_checker_def MAX_CONCURRENT_CHECKS_def)

lemma scenario_run:
  "run [0, 1, 2, 3, 4, 5, 6, 7, 8, 9, 10, 11, 12, 13, 14, 15, 16, 17, 18, 19, 0, 1, 2, 3, 4, 5, 6, 7, 8, 9, 10, 11, 12, 13, 14, 15, 16, 17, 18, 19]
     (launch (replicate 21 (scenario_network, ''203.0.113.5:3128'', None))) =
   Some \<lparr>sem_value = 0,
         running = replicate 20 \<lparr>performed = [Acquire, SocketProbe ''203.0.113.5'' 3128],
                                 todo = [Release]\<rparr> @
                   [\<lparr>performed = [], todo = [Acquire, SocketProbe ''203.0.113.5'' 3128, Release]\<rparr>]\<rparr>"
  unfolding scenario_launch
  by (simp add: advance_def sem_acquire_def sem_release_def Let_def numeral_eq_Suc)


text \<open>
  C2: at every instant of every run of concurrent calls of \<open>check_proxy\<close>, the network
  operations in flight are at most as many as the calls that hold a unit of the
  semaphore, and those are at most 20. Every call takes one unit before its first network
  operation and gives it back when it returns, with a reply or with an error; between the
  two it starts at most one network operation, the socket probe: the call of the
  validation service and the fallback probes start no request, because no session can be
  created, and \<open>check_multiple_proxies\<close> creates no call at all. So every network
  operation that runs has a unit of its own. The units left and the calls that hold one
  always add up to 20, and a call that has returned holds none. The only cancellation in
  the source, that of a sub-batch that timed out, is never reached.
\<close>

theorem operations_in_flight_within_ceiling:
  "run sched (launch calls) = Some s \<Longrightarrow>
     max_concurrent proxy_checker = 20 \<and>
     sem_value s + holders s = 20 \<and>
     in_flight s \<le> holders s \<and>
     in_flight s \<le> 20 \<and>
     (\<forall>t\<in>set (running s).
        (filter is_network_op (performed t) \<noteq> [] \<longrightarrow> Acquire \<in> set (performed t)) \<and>
        (todo t = [] \<longrightarrow> \<not> holds_unit t)) \<and>
     fst (check_proxy net proxy_str username) =
       Acquire # filter is_network_op (fst (check_proxy net proxy_str username)) @ [Release] \<and>
     length (filter is_network_op (fst (check_proxy net proxy_str username))) \<le> 1 \<and>
     (\<forall>e\<in>set (fst (check_proxy net proxy_str username)).
        case e of ApiCall host port \<Rightarrow> False | FallbackProbe proto proxy url \<Rightarrow> False | _ \<Rightarrow> True)"
proof -
  assume r: "run sched (launch calls) = Some s"
  have inv: "(\<forall>t\<in>set (running s). in_check t) \<and> sem_value s + holders s = 20"
    using run_invariant [OF r launched_in_check launched_units] .
  have a: "max_concurrent proxy_checker = 20"
    by (simp add: proxy_checker_def MAX_CONCURRENT_CHECKS_def)
  have b: "in_flight s \<le> holders s" using inv in_flight_le_holders by blast
  have c: "in_flight s \<le> 20" using inv b by arith
  have d: "\<forall>t\<in>set (running s).
        (filter is_network_op (performed t) \<noteq> [] \<longrightarrow> Acquire \<in> set (performed t)) \<and>
        (todo t = [] \<longrightarrow> \<not> holds_unit t)"
    using inv in_check_started in_check_returned by blast
  have e: "\<forall>e\<in>set (fst (check_proxy net proxy_str username)).
        case e of ApiCall host port \<Rightarrow> False | FallbackProbe proto proxy url \<Rightarrow> False | _ \<Rightarrow> True"
    using check_proxy_trace [of net proxy_str username] by auto
  from a inv b c d e check_proxy_ops [of net proxy_str username] show ?thesis by blast
qed

theorem operations_in_flight_within_ceiling_witness:
  "run [0, 1, 2, 3, 4, 5, 6, 7, 8, 9, 10, 11, 12, 13, 14, 15, 16, 17, 18, 19, 0, 1, 2, 3, 4, 5, 6, 7, 8, 9, 10, 11, 12, 13, 14, 15, 16, 17, 18, 19]
     (launch (replicate 21 (scenario_network, ''203.0.113.5:3128'', None))) =
   Some \<lparr>sem_value = 0,
       running = replicate 20 \<lparr>performed = [Acquire, SocketProbe ''203.0.113.5'' 3128],
                               todo = [Release]\<rparr> @
                 [\<lparr>performed = [], todo = [Acquire, SocketProbe ''203.0.113.5'' 3128, Release]\<rparr>]\<rparr> \<and>
   in_flight \<lparr>sem_value = 0,
       running = replicate 20 \<lparr>performed = [Acquire, SocketProbe ''203.0.113.5'' 3128],
                               todo = [Release]\<rparr> @
                 [\<lparr>performed = [], todo = [Acquire, SocketProbe ''203.0.113.5'' 3128, Release]\<rparr>]\<rparr> = 20 \<and>
   in_flight \<lparr>sem_value = 0,
       running = replicate 20 \<lparr>performed = [Acquire, SocketProbe ''203.0.113.5'' 3128],
                               todo = [Release]\<rparr> @
                 [\<lparr>performed = [], todo = [Acquire, SocketProbe ''203.0.113.5'' 3128, Release]\<rparr>]\<rparr> \<le> 20 \<and>
   holders \<lparr>sem_value = 0,
       running = replicate 20 \<lparr>performed = [Acquire, SocketProbe ''203.0.113.5'' 3128],
                               todo = [Release]\<rparr> @
                 [\<lparr>performed = [], todo = [Acquire, SocketProbe ''203.0.113.5'' 3128, Release]\<rparr>]\<rparr> = 20 \<and>
   sem_value \<lparr>sem_value = 0,
       running = replicate 20 \<lparr>performed = [Acquire, SocketProbe ''203.0.113.5'' 3128],
                               todo = [Release]\<rparr> @
                 [\<lparr>performed = [], todo = [Acquire, SocketProbe ''203.0.113.5'' 3128, Release]\<rparr>]\<rparr> + holders \<lparr>sem_value = 0,
       running = replicate 20 \<lparr>performed = [Acquire, SocketProbe ''203.0.113.5'' 3128],
                               todo = [Release]\<rparr> @
                 [\<lparr>performed = [], todo = [Acquire, SocketProbe ''203.0.113.5'' 3128, Release]\<rparr>]\<rparr> = 20 \<and>
   advance 20 \<lparr>sem_value = 0,
       running = replicate 20 \<lparr>performed = [Acquire, SocketProbe ''203.0.113.5'' 3128],
                               todo = [Release]\<rparr> @
                 [\<lparr>performed = [], todo = [Acquire, SocketProbe ''203.0.113.5'' 3128, Release]\<rparr>]\<rparr> = None \<and>
   fst (check_proxy scenario_network ''203.0.113.5:3128'' None) =
     [Acquire, SocketProbe ''203.0.113.5'' 3128, Release] \<and>
   fst (check_proxy scenario_network ''203.0.113.5'' None) = [Acquire, Release]"
proof -
  have i: "in_flight \<lparr>sem_value = 0,
       running = replicate 20 \<lparr>performed = [Acquire, SocketProbe ''203.0.113.5'' 3128],
                               todo = [Release]\<rparr> @
                 [\<lparr>performed = [], todo = [Acquire, SocketProbe ''203.0.113.5'' 3128, Release]\<rparr>]\<rparr> = 20"
    by (simp add: in_flight_def in_flight_of_def is_network_op_def sum_list_replicate)
  have h: "holders \<lparr>sem_value = 0,
       running = replicate 20 \<lparr>performed = [Acquire, SocketProbe ''203.0.113.5'' 3128],
                               todo = [Release]\<rparr> @
                 [\<lparr>performed = [], todo = [Acquire, SocketProbe ''203.0.113.5'' 3128, Release]\<rparr>]\<rparr> = 20"
    by (simp add: holders_def holds_unit_def)
  have w: "advance 20 \<lparr>sem_value = 0,
       running = replicate 20 \<lparr>performed = [Acquire, SocketProbe ''203.0.113.5'' 3128],
                               todo = [Release]\<rparr> @
                 [\<lparr>performed = [], todo = [Acquire, SocketProbe ''203.0.113.5'' 3128, Release]\<rparr>]\<rparr> = None"
    by (simp add: advance_def sem_acquire_def nth_append)
  have f: "fst (check_proxy scenario_network ''203.0.113.5'' None) = [Acquire, Release]"
    using operations_in_flight_within_ceiling [OF scenario_run,
        of scenario_network "''203.0.113.5''" None]
    by (simp add: check_proxy_effects check_proxy_body_def parse_proxy_string_def split_def)
  from operations_in_flight_within_ceiling [OF scenario_run] scenario_run i h w f
    scenario_check_effects
  show ?thesis by simp
qed

end
